theory Spec2Isabelle
  imports Complex_Main "HOL-Library.Multiset"
begin

section \<open>Conventions\<close>

text \<open>
  This theory embeds the text-to-question pipeline of the quiz generator
  (\<^verbatim>\<open>processors.py\<close>, \<^verbatim>\<open>prompts.py\<close>, \<^verbatim>\<open>generator.py\<close>, \<^verbatim>\<open>gemini_generator.py\<close>,
  \<^verbatim>\<open>validator.py\<close>) and states its properties.

  \<^item> A Python \<^verbatim>\<open>str\<close> is a \<^typ>\<open>string\<close>; a character is a code point below 256, and
    the character classes of \<^verbatim>\<open>str.isspace\<close>, \<^verbatim>\<open>str.lower\<close> and of the regular
    expression classes \<^verbatim>\<open>\s\<close> and \<^verbatim>\<open>\w\<close> are written out for that range.
  \<^item> A question dictionary is a record with one field per key the code reads or
    writes (the key \<^verbatim>\<open>"options"\<close> is the field \<open>q_options\<close>); a field is \<^term>\<open>None\<close>
    when the key is absent. The values carry the types that \<^verbatim>\<open>models.Question\<close>
    declares.
  \<^item> Operations that raise in Python (indexing, \<^verbatim>\<open>%\<close> and \<^verbatim>\<open>/\<close> by zero) return a
    sum, \<^term>\<open>Inl\<close> carrying the exception; a function that also changes the state
    returns the sum together with the state reached.
  \<^item> The external capabilities (text generation, sentence embedding) and the random
    number generator are parameters: an oracle for the model's output and a list of
    naturals consumed left to right for the random draws.
\<close>

datatype error = IndexError | ZeroDivisionError | AttributeError

text \<open>Sequencing of computations that may raise: the first exception ends the run.\<close>

definition and_then :: "error + 'a \<Rightarrow> ('a \<Rightarrow> error + 'b) \<Rightarrow> error + 'b" where
  "and_then m f = (case m of Inl e \<Rightarrow> Inl e | Inr x \<Rightarrow> f x)"

text \<open>\<^verbatim>\<open>xs[i]\<close> for a non-negative index, \<^verbatim>\<open>a % b\<close> and \<^verbatim>\<open>a // b\<close>.\<close>

definition py_index :: "'a list \<Rightarrow> nat \<Rightarrow> error + 'a" where
  "py_index xs i = (if i < length xs then Inr (xs ! i) else Inl IndexError)"

definition py_mod :: "nat \<Rightarrow> nat \<Rightarrow> error + nat" where
  "py_mod a b = (if b = 0 then Inl ZeroDivisionError else Inr (a mod b))"

definition py_floordiv :: "int \<Rightarrow> int \<Rightarrow> error + int" where
  "py_floordiv a b = (if b = 0 then Inl ZeroDivisionError else Inr (a div b))"

section \<open>Strings\<close>

definition isspace :: "char \<Rightarrow> bool" where
  "isspace c = (let n = (of_char c :: nat) in
     (9 \<le> n \<and> n \<le> 13) \<or> (28 \<le> n \<and> n \<le> 32) \<or> n = 133 \<or> n = 160)"

fun startswith :: "string \<Rightarrow> string \<Rightarrow> bool" where
  "startswith s [] = True"
| "startswith [] (p # ps) = False"
| "startswith (c # cs) (p # ps) = (c = p \<and> startswith cs ps)"

definition endswith :: "string \<Rightarrow> string \<Rightarrow> bool" where
  "endswith s p = startswith (rev s) (rev p)"

text \<open>\<^verbatim>\<open>sub in s\<close> on strings.\<close>

fun contains :: "string \<Rightarrow> string \<Rightarrow> bool" where
  "contains [] sub = (sub = [])"
| "contains (c # cs) sub = (startswith (c # cs) sub \<or> contains cs sub)"

text \<open>\<^verbatim>\<open>sep.join(xs)\<close>.\<close>

fun join :: "string \<Rightarrow> string list \<Rightarrow> string" where
  "join sep [] = []"
| "join sep [x] = x"
| "join sep (x # y # ys) = x @ sep @ join sep (y # ys)"

text \<open>\<^verbatim>\<open>str(n)\<close> for a non-negative integer.\<close>

definition digit_char :: "nat \<Rightarrow> char" where
  "digit_char d = ''0123456789'' ! d"

fun str_of_nat :: "nat \<Rightarrow> string" where
  "str_of_nat n = (if n < 10 then [digit_char n]
                   else str_of_nat (n div 10) @ [digit_char (n mod 10)])"

declare str_of_nat.simps [simp del]

text \<open>\<^verbatim>\<open>str.lower\<close>: the ASCII capitals and the capitals of the Latin-1 supplement.\<close>

definition lower_char :: "char \<Rightarrow> char" where
  "lower_char c = (let n = (of_char c :: nat) in
     if (65 \<le> n \<and> n \<le> 90) \<or> (192 \<le> n \<and> n \<le> 222 \<and> n \<noteq> 215)
     then char_of (n + 32) else c)"

definition lower :: "string \<Rightarrow> string" where
  "lower s = map lower_char s"

text \<open>
  The alphanumeric characters (\<^verbatim>\<open>str.isalnum\<close>) below 256; with the underscore they are
  the class \<^verbatim>\<open>\w\<close>.
\<close>

definition isalnum :: "char \<Rightarrow> bool" where
  "isalnum c = (let n = (of_char c :: nat) in
     (48 \<le> n \<and> n \<le> 57) \<or> (65 \<le> n \<and> n \<le> 90) \<or> (97 \<le> n \<and> n \<le> 122)
     \<or> n = 170 \<or> n = 178 \<or> n = 179 \<or> n = 181 \<or> n = 185 \<or> n = 186
     \<or> (188 \<le> n \<and> n \<le> 190) \<or> (192 \<le> n \<and> n \<le> 214)
     \<or> (216 \<le> n \<and> n \<le> 246) \<or> (248 \<le> n \<and> n \<le> 255))"

definition is_word_char :: "char \<Rightarrow> bool" where
  "is_word_char c = (isalnum c \<or> c = CHR ''_'')"

definition is_ascii_upper :: "char \<Rightarrow> bool" where
  "is_ascii_upper c = (let n = (of_char c :: nat) in 65 \<le> n \<and> n \<le> 90)"

definition is_ascii_alpha :: "char \<Rightarrow> bool" where
  "is_ascii_alpha c = (let n = (of_char c :: nat) in
     (65 \<le> n \<and> n \<le> 90) \<or> (97 \<le> n \<and> n \<le> 122))"

text \<open>\<^verbatim>\<open>s.strip()\<close> and \<^verbatim>\<open>s.strip(chars)\<close>.\<close>

definition strip :: "string \<Rightarrow> string" where
  "strip s = rev (dropWhile isspace (rev (dropWhile isspace s)))"

definition strip_chars :: "string \<Rightarrow> string \<Rightarrow> string" where
  "strip_chars s chars =
     rev (dropWhile (\<lambda>c. c \<in> set chars) (rev (dropWhile (\<lambda>c. c \<in> set chars) s)))"

text \<open>
  The maximal runs of characters that satisfy \<open>p\<close>, left to right; \<open>cur\<close> is the run
  being read, reversed. \<^verbatim>\<open>s.split()\<close> is the list of the runs of non-blank characters.
\<close>

fun runs :: "(char \<Rightarrow> bool) \<Rightarrow> string \<Rightarrow> string \<Rightarrow> string list" where
  "runs p cur [] = (if cur = [] then [] else [rev cur])"
| "runs p cur (c # cs) =
     (if p c then runs p (c # cur) cs
      else if cur = [] then runs p [] cs
      else rev cur # runs p [] cs)"

definition str_split :: "string \<Rightarrow> string list" where
  "str_split s = runs (\<lambda>c. \<not> isspace c) [] s"

section \<open>Question dictionaries\<close>

record question_dict =
  q_id :: "int option"
  q_question :: "string option"
  q_options :: "string list option"
  q_correct_answer :: "string option"
  q_explanation :: "string option"
  q_difficulty :: "string option"
  q_bloom_level :: "string option"
  q_category :: "string option"
  q_subject_area :: "string option"
  q_key_concept :: "string option"
  q_created_at :: "string option"

text \<open>\<^verbatim>\<open>d.get(key, default)\<close>.\<close>

definition dict_get :: "'a option \<Rightarrow> 'a \<Rightarrow> 'a" where
  "dict_get v dflt = (case v of None \<Rightarrow> dflt | Some x \<Rightarrow> x)"

section \<open>validator.py\<close>

datatype metric = MInt int | MBool bool | MStr string

record validation_result =
  score :: int
  feedback :: string
  quality_metrics :: "string \<rightharpoonup> metric"

text \<open>
  The sentence-embedding model is optional (\<^verbatim>\<open>SIMILARITY_MODEL_LOADED\<close>). When present it
  is the computation of lines 131 to 149 of \<^verbatim>\<open>validator.py\<close>: from the list
  \<^verbatim>\<open>[correct_answer] + distractors\<close> it yields the integer mean of the per-distractor
  scores, or raises.
\<close>

type_synonym similarity_model = "(string list \<Rightarrow> error + int) option"

definition check_bloom_level :: "string \<Rightarrow> string" where
  "check_bloom_level question_text =
    (let question_lower = lower question_text;
         remember_keywords = [''what'', ''when'', ''where'', ''who'', ''define'', ''list'', ''name'', ''identify''];
         understand_keywords = [''explain'', ''describe'', ''summarize'', ''interpret'', ''compare''];
         apply_keywords = [''apply'', ''demonstrate'', ''solve'', ''use'', ''implement''];
         analyze_keywords = [''analyze'', ''examine'', ''compare'', ''contrast'', ''differentiate''];
         evaluate_keywords = [''evaluate'', ''assess'', ''judge'', ''critique'', ''justify''];
         create_keywords = [''create'', ''design'', ''develop'', ''formulate'', ''construct'']
     in if list_ex (contains question_lower) create_keywords then ''create''
        else if list_ex (contains question_lower) evaluate_keywords then ''evaluate''
        else if list_ex (contains question_lower) analyze_keywords then ''analyze''
        else if list_ex (contains question_lower) apply_keywords then ''apply''
        else if list_ex (contains question_lower) understand_keywords then ''understand''
        else if list_ex (contains question_lower) remember_keywords then ''remember''
        else ''understand'')"

definition score_distractor_quality :: "similarity_model \<Rightarrow> string list \<Rightarrow> string \<Rightarrow> int" where
  "score_distractor_quality similarity_model options correct_answer =
    (case similarity_model of
       None \<Rightarrow> 70
     | Some encode_and_score \<Rightarrow>
         (let distractors = filter (\<lambda>opt. opt \<noteq> correct_answer) options
          in if length distractors = 0 then 0
             else (case encode_and_score (correct_answer # distractors) of
                     Inl e \<Rightarrow> 70
                   | Inr v \<Rightarrow> v)))"

text \<open>
  One rule of the validator: \<^verbatim>\<open>if violated: score -= points; feedback.append(message)\<close>,
  on the pair of the running score and the feedback list.
\<close>

definition deduct :: "bool \<Rightarrow> int \<Rightarrow> string \<Rightarrow> int \<times> string list \<Rightarrow> int \<times> string list" where
  "deduct violated points message st =
    (if violated then (fst st - points, snd st @ [message]) else st)"

text \<open>\<^verbatim>\<open>a / b\<close> on integers; the quotient is kept exact.\<close>

definition py_truediv :: "nat \<Rightarrow> nat \<Rightarrow> error + rat" where
  "py_truediv a b = (if b = 0 then Inl ZeroDivisionError else Inr (of_nat a / of_nat b))"

definition avg_option_length :: "string list \<Rightarrow> error + rat" where
  "avg_option_length options =
    (if options \<noteq> [] then py_truediv (sum_list (map length options)) (length options) else Inr 0)"

text \<open>
  The penalties of \<^verbatim>\<open>validate_question_quality\<close> in the order of the source; the last
  component is the distractor score when it was computed.
\<close>

definition penalties :: "similarity_model \<Rightarrow> string \<Rightarrow> string list \<Rightarrow> string \<Rightarrow> string \<Rightarrow> rat
    \<Rightarrow> (int \<times> string list) \<times> int option" where
  "penalties sim question_text options correct_answer explanation avg =
    (let st = (100, []);
         st = deduct (\<not> endswith question_text ''?'') 10 ''Question should end with question mark'' st;
         st = deduct (length question_text < 10) 20 ''Question too short'' st;
         st = deduct (length question_text > 200) 10 ''Question too long'' st;
         st = deduct (length options \<noteq> 4) 30
                (''Should have 4 options, found '' @ str_of_nat (length options)) st;
         st = deduct (correct_answer \<notin> set options) 40 ''Correct answer not found in options'' st;
         st = deduct (card (set options) \<noteq> length options) 25 ''Duplicate options found'' st;
         st = deduct (avg < 5) 15 ''Options too short'' st;
         st = deduct (length explanation < 10) 10 ''Explanation too short'' st
     in if length options \<ge> 4
        then (let distractor_score = score_distractor_quality sim options correct_answer
              in (deduct (distractor_score < 50) 20 ''Poor quality distractors'' st,
                  Some distractor_score))
        else (st, None))"

definition validate_question_quality :: "similarity_model \<Rightarrow> question_dict \<Rightarrow> error + validation_result" where
  "validate_question_quality sim q =
    (let question_text = dict_get (q_question q) '''';
         options = dict_get (q_options q) [];
         correct_answer = dict_get (q_correct_answer q) '''';
         explanation = dict_get (q_explanation q) ''''
     in case avg_option_length options of
          Inl e \<Rightarrow> Inl e
        | Inr avg \<Rightarrow>
           (let ((s, fb), distractor_score) = penalties sim question_text options correct_answer explanation avg;
                metrics = (case distractor_score of
                             None \<Rightarrow> Map.empty
                           | Some d \<Rightarrow> [''distractor_quality'' \<mapsto> MInt d]);
                metrics = metrics(''bloom_level'' \<mapsto> MStr (check_bloom_level question_text));
                s = max 0 (min 100 s);
                metrics = metrics(
                  ''question_length'' \<mapsto> MInt (int (length question_text)),
                  ''option_count'' \<mapsto> MInt (int (length options)),
                  ''explanation_length'' \<mapsto> MInt (int (length explanation)),
                  ''has_question_mark'' \<mapsto> MBool (endswith question_text ''?''),
                  ''unique_options'' \<mapsto> MBool (card (set options) = length options))
            in Inr \<lparr>score = s,
                    feedback = (if fb \<noteq> [] then join ''; '' fb else ''Good quality question''),
                    quality_metrics = metrics\<rparr>))"

fun validate_multiple_questions :: "similarity_model \<Rightarrow> question_dict list \<Rightarrow> error + validation_result list" where
  "validate_multiple_questions sim [] = Inr []"
| "validate_multiple_questions sim (q # qs) =
    (case validate_question_quality sim q of
       Inl e \<Rightarrow> Inl e
     | Inr r \<Rightarrow> (case validate_multiple_questions sim qs of
                   Inl e \<Rightarrow> Inl e
                 | Inr rs \<Rightarrow> Inr (r # rs)))"

section \<open>processors.py\<close>

text \<open>
  \<^verbatim>\<open>re.sub\<close> of every maximal run of characters in a class by one character: the
  patterns \<^verbatim>\<open>\s+\<close> (replaced by a blank) and \<^verbatim>\<open>[.]{2,}\<close>, \<^verbatim>\<open>[!]{2,}\<close>, \<^verbatim>\<open>[?]{2,}\<close>
  (replaced by the character itself, so that a run of length one stays as it is).
  The flag says that the previous character belonged to the run.
\<close>

fun sub_runs :: "(char \<Rightarrow> bool) \<Rightarrow> char \<Rightarrow> bool \<Rightarrow> string \<Rightarrow> string" where
  "sub_runs p r in_run [] = []"
| "sub_runs p r in_run (c # cs) =
     (if p c then (if in_run then sub_runs p r True cs else r # sub_runs p r True cs)
      else c # sub_runs p r False cs)"

text \<open>\<^verbatim>\<open>re.sub(r'([.!?])([A-Z])', r'\1 \2', text)\<close>.\<close>

fun space_after_punct :: "string \<Rightarrow> string" where
  "space_after_punct (p # c # cs) =
     (if p \<in> set ''.!?'' \<and> is_ascii_upper c
      then p # CHR '' '' # c # space_after_punct cs
      else p # space_after_punct (c # cs))"
| "space_after_punct cs = cs"

definition clean_text :: "string \<Rightarrow> string" where
  "clean_text text =
    (let text = sub_runs isspace (CHR '' '') False text;
         text = filter (\<lambda>c. is_word_char c \<or> isspace c \<or> c \<in> set ''.!?,-'') text;
         text = sub_runs (\<lambda>c. c = CHR ''.'') (CHR ''.'') False text;
         text = sub_runs (\<lambda>c. c = CHR ''!'') (CHR ''!'') False text;
         text = sub_runs (\<lambda>c. c = CHR ''?'') (CHR ''?'') False text;
         text = space_after_punct text
     in strip text)"

text \<open>
  \<^verbatim>\<open>re.split(r'[.!?]+', s)\<close>: the pieces between the maximal runs of delimiters, the
  empty pieces at both ends included.
\<close>

fun re_split :: "(char \<Rightarrow> bool) \<Rightarrow> bool \<Rightarrow> string \<Rightarrow> string \<Rightarrow> string list" where
  "re_split p in_delim cur [] = [rev cur]"
| "re_split p in_delim cur (c # cs) =
     (if p c then (if in_delim then re_split p True [] cs
                   else rev cur # re_split p True [] cs)
      else re_split p False (c # cur) cs)"

definition split_sentences :: "string \<Rightarrow> string list" where
  "split_sentences text =
    (let sentences = re_split (\<lambda>c. c \<in> set ''.!?'') False [] text
     in filter (\<lambda>s. s \<noteq> []) (map strip sentences))"

text \<open>
  The loop of \<^verbatim>\<open>preprocess_text\<close> over the sentences, on the variables \<^verbatim>\<open>chunks\<close>,
  \<^verbatim>\<open>current_chunk\<close> and \<^verbatim>\<open>current_word_count\<close>.
\<close>

fun group_sentences :: "string list \<Rightarrow> string list \<Rightarrow> string list \<Rightarrow> nat
    \<Rightarrow> string list \<times> string list \<times> nat" where
  "group_sentences [] chunks current_chunk current_word_count =
     (chunks, current_chunk, current_word_count)"
| "group_sentences (sentence # rest) chunks current_chunk current_word_count =
     (let words = str_split sentence;
          sentence_word_count = length words
      in if current_word_count + sentence_word_count > 300 \<and> current_chunk \<noteq> []
         then (let chunk_text = join ''. '' current_chunk @ ''.''
               in group_sentences rest
                    (if current_word_count \<ge> 200 then chunks @ [chunk_text] else chunks)
                    [sentence] sentence_word_count)
         else group_sentences rest chunks (current_chunk @ [sentence])
                (current_word_count + sentence_word_count))"

text \<open>The value of \<^verbatim>\<open>chunks\<close> before the last test of \<^verbatim>\<open>preprocess_text\<close>.\<close>

definition full_chunks :: "string \<Rightarrow> string list" where
  "full_chunks cleaned_text =
    (let sentences = split_sentences cleaned_text;
         (chunks, current_chunk, current_word_count) = group_sentences sentences [] [] 0
     in if current_chunk \<noteq> [] \<and> current_word_count \<ge> 200
        then chunks @ [join ''. '' current_chunk @ ''.'']
        else chunks)"

definition preprocess_text :: "string \<Rightarrow> string list" where
  "preprocess_text text =
    (let cleaned_text = clean_text text;
         chunks = full_chunks cleaned_text
     in if chunks = [] then [cleaned_text] else chunks)"

definition stop_words :: "string list" where
  "stop_words =
    [''the'', ''a'', ''an'', ''and'', ''or'', ''but'', ''in'', ''on'', ''at'', ''to'', ''for'', ''of'', ''with'', ''by'',
     ''is'', ''are'', ''was'', ''were'', ''be'', ''been'', ''being'', ''have'', ''has'', ''had'', ''do'', ''does'', ''did'',
     ''will'', ''would'', ''could'', ''should'', ''may'', ''might'', ''can'', ''this'', ''that'', ''these'', ''those'',
     ''i'', ''you'', ''he'', ''she'', ''it'', ''we'', ''they'', ''me'', ''him'', ''her'', ''us'', ''them'', ''my'', ''your'',
     ''his'', ''its'', ''our'', ''their'', ''from'', ''up'', ''about'', ''into'', ''through'', ''during'', ''before'',
     ''after'', ''above'', ''below'', ''between'', ''among'', ''around'', ''near'', ''far'', ''here'', ''there'',
     ''where'', ''when'', ''why'', ''how'', ''what'', ''which'', ''who'', ''whom'', ''whose'', ''if'', ''unless'',
     ''while'', ''although'', ''because'', ''since'', ''so'', ''than'', ''such'', ''both'', ''either'', ''neither'']"

text \<open>
  \<^verbatim>\<open>re.findall(r'\b[a-zA-Z]{2,}\b', s)\<close>. A match starts and ends at a word boundary and
  holds letters only, so it is a whole maximal run of \<^verbatim>\<open>\w\<close> characters; the matches are
  the runs made of at least two ASCII letters and nothing else.
\<close>

definition findall_words :: "string \<Rightarrow> string list" where
  "findall_words s =
     filter (\<lambda>w. list_all is_ascii_alpha w \<and> length w \<ge> 2) (runs is_word_char [] s)"

text \<open>
  \<^verbatim>\<open>collections.Counter\<close> of a list, as the association list of its items in the order of
  first occurrence.
\<close>

fun counter_add :: "'a \<Rightarrow> ('a \<times> nat) list \<Rightarrow> ('a \<times> nat) list" where
  "counter_add x [] = [(x, 1)]"
| "counter_add x ((y, n) # rest) =
     (if x = y then (y, n + 1) # rest else (y, n) # counter_add x rest)"

definition Counter :: "'a list \<Rightarrow> ('a \<times> nat) list" where
  "Counter xs = fold counter_add xs []"

text \<open>
  The scores of \<^verbatim>\<open>extract_key_concepts\<close>, one per item of the counter. The quotient
  \<^verbatim>\<open>freq / total_words\<close> raises on a zero divisor. The floating-point part, the product of
  \<^verbatim>\<open>tf\<close> with \<^verbatim>\<open>math.log(total_words / freq)\<close>, is the parameter \<open>tfidf\<close>, applied to
  the two exact quotients; for a frequency of 0 the source takes 0 for the logarithm, which
  is the logarithm of the ratio 1.
\<close>

fun score_items :: "(rat \<Rightarrow> rat \<Rightarrow> 'a) \<Rightarrow> nat \<Rightarrow> (string \<times> nat) list
    \<Rightarrow> error + (string \<times> 'a) list" where
  "score_items tfidf total_words [] = Inr []"
| "score_items tfidf total_words ((word, freq) # rest) =
     (case py_truediv freq total_words of
        Inl e \<Rightarrow> Inl e
      | Inr tf \<Rightarrow>
         (case (if freq > 0 then py_truediv total_words freq else Inr 1) of
            Inl e \<Rightarrow> Inl e
          | Inr ratio \<Rightarrow>
             (case score_items tfidf total_words rest of
                Inl e \<Rightarrow> Inl e
              | Inr scores \<Rightarrow> Inr ((word, tfidf tf ratio) # scores))))"

text \<open>\<^verbatim>\<open>sorted(items, key=..., reverse=True)\<close>: a stable sort of the reversed list, reversed.\<close>

definition sorted_reverse :: "('b \<Rightarrow> 'a::linorder) \<Rightarrow> 'b list \<Rightarrow> 'b list" where
  "sorted_reverse key xs = rev (sort_key key (rev xs))"

definition extract_key_concepts :: "(rat \<Rightarrow> rat \<Rightarrow> 'a::linorder) \<Rightarrow> string \<Rightarrow> error + string list" where
  "extract_key_concepts tfidf text =
    (let cleaned_text = clean_text (lower text);
         words = findall_words cleaned_text;
         meaningful_words = filter (\<lambda>word. word \<notin> set stop_words \<and> length word > 2) words;
         word_freq = Counter meaningful_words;
         total_words = length meaningful_words
     in case score_items tfidf total_words word_freq of
          Inl e \<Rightarrow> Inl e
        | Inr scores \<Rightarrow>
           (let top_concepts = take 10 (sorted_reverse snd scores)
            in Inr (map fst top_concepts)))"

text \<open>
  \<^verbatim>\<open>analyze_text_complexity\<close>. The two averages are kept exact (the source rounds them to
  one and two decimals); the key \<^verbatim>\<open>difficulty\<close> repeats \<^verbatim>\<open>complexity_level\<close>.
\<close>

record text_analysis =
  a_word_count :: nat
  a_sentence_count :: nat
  a_avg_words_per_sentence :: rat
  a_vocabulary_complexity :: rat
  a_complexity_level :: string
  a_key_concepts :: "string list"

definition analyze_text_complexity :: "(rat \<Rightarrow> rat \<Rightarrow> 'a::linorder) \<Rightarrow> string \<Rightarrow> error + text_analysis" where
  "analyze_text_complexity tfidf text =
    (let words = str_split text;
         sentences = split_sentences text;
         word_count = length words;
         sentence_count = length sentences
     in and_then (if sentence_count > 0 then py_truediv word_count sentence_count else Inr 0)
        (\<lambda>avg_words_per_sentence.
     let unique_words = card (set (map lower words))
     in and_then (if word_count > 0 then py_truediv unique_words word_count else Inr 0)
        (\<lambda>vocabulary_complexity.
     let complexity =
           (if avg_words_per_sentence > 20 \<and> vocabulary_complexity > 6 / 10 then ''high''
            else if avg_words_per_sentence > 15 \<and> vocabulary_complexity > 4 / 10 then ''medium''
            else ''low'')
     in and_then (extract_key_concepts tfidf text)
        (\<lambda>key_concepts.
     Inr \<lparr>a_word_count = word_count, a_sentence_count = sentence_count,
          a_avg_words_per_sentence = avg_words_per_sentence,
          a_vocabulary_complexity = vocabulary_complexity,
          a_complexity_level = complexity, a_key_concepts = key_concepts\<rparr>))))"

text \<open>
  \<^verbatim>\<open>group_questions_by_topic\<close>: the groups in the order of the keys of \<^verbatim>\<open>topic_groups\<close>,
  each with the questions assigned to it, the empty groups removed.
\<close>

definition group_questions_by_topic :: "(rat \<Rightarrow> rat \<Rightarrow> 'a::linorder) \<Rightarrow> question_dict list \<Rightarrow> string
    \<Rightarrow> error + (string \<times> question_dict list) list" where
  "group_questions_by_topic tfidf questions text =
    and_then (extract_key_concepts tfidf text)
      (\<lambda>key_concepts.
    let topics = take 5 key_concepts;
        keys = topics @ (if ''general'' \<in> set topics then [] else [''general'']);
        topic_of = (\<lambda>q. let question_text = lower (dict_get (q_question q) [])
                         in case find (\<lambda>concept. contains question_text concept) topics of
                              Some concept \<Rightarrow> concept
                            | None \<Rightarrow> ''general'');
        topic_groups = map (\<lambda>topic. (topic, filter (\<lambda>q. topic_of q = topic) questions)) keys
    in Inr (filter (\<lambda>(topic, qs). qs \<noteq> []) topic_groups))"

section \<open>prompts.py\<close>

definition apostrophe :: string where
  "apostrophe = [CHR 0x27]"

definition QUESTION_PROMPT :: "string \<Rightarrow> string" where
  "QUESTION_PROMPT text =
     ''Create a multiple choice question testing understanding of: '' @ text"

definition DISTRACTOR_PROMPT :: "string \<Rightarrow> string \<Rightarrow> string" where
  "DISTRACTOR_PROMPT correct_answer context =
     ''Generate 3 incorrect but plausible answers for: '' @ correct_answer
     @ '' Context: '' @ context"

definition EXPLANATION_PROMPT :: "string \<Rightarrow> string \<Rightarrow> string" where
  "EXPLANATION_PROMPT answer question =
     ''Explain why '' @ answer @ '' is correct for question: '' @ question"

text \<open>A template is the function that \<^verbatim>\<open>str.format\<close> makes of it.\<close>

record prompt_config =
  template :: "string \<Rightarrow> string \<Rightarrow> string"
  focus :: string
  bloom_levels :: "string list"
  instructions :: string

definition ENHANCED_QUESTION_PROMPTS :: "(string \<times> prompt_config) list" where
  "ENHANCED_QUESTION_PROMPTS =
    [(''easy'',
      \<lparr>template = (\<lambda>focus text. ''Create a simple multiple choice question that tests ''
                     @ focus @ '' from this text: '' @ text),
       focus = ''basic facts and recall'',
       bloom_levels = [''Remember'', ''Understand''],
       instructions = ''Focus on who, what, where, when questions. Use direct facts from the text.''\<rparr>),
     (''medium'',
      \<lparr>template = (\<lambda>focus text. ''Create a multiple choice question that tests ''
                     @ focus @ '' from this text: '' @ text),
       focus = ''conceptual understanding and application'',
       bloom_levels = [''Understand'', ''Apply''],
       instructions = ''Focus on why and how questions. Test comprehension and relationships between concepts.''\<rparr>),
     (''hard'',
      \<lparr>template = (\<lambda>focus text. ''Create a challenging multiple choice question that tests ''
                     @ focus @ '' from this text: '' @ text),
       focus = ''critical analysis and evaluation'',
       bloom_levels = [''Analyze'', ''Evaluate'', ''Create''],
       instructions = ''Focus on analysis, synthesis, and evaluation. Require deep thinking and inference.''\<rparr>),
     (''mixed'',
      \<lparr>template = (\<lambda>focus text. ''Create multiple choice questions that test ''
                     @ focus @ '' from this text: '' @ text),
       focus = ''various cognitive levels from basic recall to critical analysis'',
       bloom_levels = [''Remember'', ''Understand'', ''Apply'', ''Analyze''],
       instructions = ''Create questions of varying difficulty levels, from basic facts to analytical thinking.''\<rparr>)]"

definition ENHANCED_DISTRACTOR_PROMPTS :: "(string \<times> (string \<Rightarrow> string \<Rightarrow> string)) list" where
  "ENHANCED_DISTRACTOR_PROMPTS =
    [(''conceptual'', \<lambda>correct_answer context.
        ''Generate 3 incorrect but conceptually related answers for '' @ apostrophe
        @ correct_answer @ apostrophe
        @ ''. Make them plausible but clearly wrong when analyzed. Context: '' @ context),
     (''factual'', \<lambda>correct_answer context.
        ''Generate 3 incorrect but factually similar answers for '' @ apostrophe
        @ correct_answer @ apostrophe
        @ ''. Use related numbers, dates, or names that could confuse students. Context: ''
        @ context),
     (''analytical'', \<lambda>correct_answer context.
        ''Generate 3 incorrect but logically structured answers for '' @ apostrophe
        @ correct_answer @ apostrophe
        @ ''. Make them sound reasonable but contain subtle errors. Context: '' @ context)]"

definition ENHANCED_EXPLANATION_PROMPTS :: "(string \<times> (string \<Rightarrow> string \<Rightarrow> string)) list" where
  "ENHANCED_EXPLANATION_PROMPTS =
    [(''basic'', \<lambda>answer question.
        ''Provide a clear, simple explanation for why '' @ apostrophe @ answer @ apostrophe
        @ '' is the correct answer to the question: '' @ apostrophe @ question @ apostrophe
        @ ''. Reference the source text.''),
     (''detailed'', \<lambda>answer question.
        ''Provide a comprehensive explanation for why '' @ apostrophe @ answer @ apostrophe
        @ '' is correct for: '' @ apostrophe @ question @ apostrophe
        @ ''. Include relevant context and explain why other options are incorrect.''),
     (''analytical'', \<lambda>answer question.
        ''Provide an analytical explanation for why '' @ apostrophe @ answer @ apostrophe
        @ '' is the best answer to: '' @ apostrophe @ question @ apostrophe
        @ ''. Discuss the reasoning process and key concepts involved.'')]"

definition BLOOM_QUESTION_STARTERS :: "(string \<times> string list) list" where
  "BLOOM_QUESTION_STARTERS =
    [(''Remember'',
      [''What is'', ''Who was'', ''When did'', ''Where is'', ''Which of the following'',
       ''Define'', ''List'', ''Name'', ''Identify'', ''State'']),
     (''Understand'',
      [''Explain why'', ''Describe how'', ''What does this mean'', ''Summarize'',
       ''Compare'', ''Contrast'', ''Interpret'', ''Paraphrase'']),
     (''Apply'',
      [''How would you use'', ''What would happen if'', ''Apply the concept'',
       ''Demonstrate'', ''Solve'', ''Show how'', ''Use this information'']),
     (''Analyze'',
      [''Why do you think'', ''What evidence supports'', ''What are the parts'',
       ''Analyze'', ''Examine'', ''What factors'', ''Break down'']),
     (''Evaluate'',
      [''Which is better'', ''Judge the value'', ''What criteria would you use'',
       ''Evaluate'', ''Critique'', ''Justify'', ''Assess'']),
     (''Create'',
      [''Design a'', ''Create a new'', ''What would you propose'',
       ''Develop'', ''Formulate'', ''Construct'', ''Generate''])]"

definition get_difficulty_prompt :: "string \<Rightarrow> string \<Rightarrow> string" where
  "get_difficulty_prompt difficulty text =
    (let difficulty = lower difficulty
     in case map_of ENHANCED_QUESTION_PROMPTS difficulty of
          Some prompt_config \<Rightarrow> template prompt_config (focus prompt_config) text
        | None \<Rightarrow> QUESTION_PROMPT text)"

definition get_bloom_level_for_difficulty :: "string \<Rightarrow> error + string" where
  "get_bloom_level_for_difficulty difficulty =
    (let difficulty = lower difficulty
     in case map_of ENHANCED_QUESTION_PROMPTS difficulty of
          Some prompt_config \<Rightarrow> py_index (bloom_levels prompt_config) 0
        | None \<Rightarrow> Inr ''Understand'')"

definition get_distractor_prompt :: "string \<Rightarrow> string \<Rightarrow> string \<Rightarrow> string" where
  "get_distractor_prompt distractor_type correct_answer context =
    (case map_of ENHANCED_DISTRACTOR_PROMPTS distractor_type of
       Some format \<Rightarrow> format correct_answer context
     | None \<Rightarrow> DISTRACTOR_PROMPT correct_answer context)"

definition get_explanation_prompt :: "string \<Rightarrow> string \<Rightarrow> string \<Rightarrow> string" where
  "get_explanation_prompt explanation_type answer question =
    (case map_of ENHANCED_EXPLANATION_PROMPTS explanation_type of
       Some format \<Rightarrow> format answer question
     | None \<Rightarrow> EXPLANATION_PROMPT answer question)"

definition detect_subject_area :: "string \<Rightarrow> string" where
  "detect_subject_area text =
    (let text_lower = lower text;
         science_keywords = [''experiment'', ''hypothesis'', ''theory'', ''analysis'', ''scientific'',
                             ''research'', ''study'', ''data'', ''observation'', ''method''];
         history_keywords = [''century'', ''war'', ''empire'', ''historical'', ''period'', ''era'',
                             ''ancient'', ''revolution'', ''society'', ''civilization''];
         literature_keywords = [''character'', ''theme'', ''plot'', ''author'', ''literary'', ''novel'',
                                ''story'', ''poem'', ''narrative'', ''symbolism''];
         science_count = length (filter (contains text_lower) science_keywords);
         history_count = length (filter (contains text_lower) history_keywords);
         literature_count = length (filter (contains text_lower) literature_keywords);
         max_count = max science_count (max history_count literature_count)
     in if max_count \<ge> 2 \<and> science_count = max_count then ''science''
        else if max_count \<ge> 2 \<and> history_count = max_count then ''history''
        else if max_count \<ge> 2 \<and> literature_count = max_count then ''literature''
        else ''general'')"

section \<open>The random number generator and the language model\<close>

text \<open>
  The state that the generators thread through their calls: the number of calls made to
  the external generation capability so far, and the random draws still to come (when
  the list is used up every further draw is 0).
\<close>

record world =
  calls :: nat
  draws :: "nat list"

text \<open>\<^verbatim>\<open>random.Random._randbelow(n)\<close>.\<close>

definition randbelow :: "nat \<Rightarrow> world \<Rightarrow> nat \<times> world" where
  "randbelow n w =
    (case draws w of
       [] \<Rightarrow> (0, w)
     | r # rs \<Rightarrow> (r mod n, w\<lparr>draws := rs\<rparr>))"

text \<open>
  \<^verbatim>\<open>random.shuffle(x)\<close>:
  \<^verbatim>\<open>for i in reversed(range(1, len(x))): j = randbelow(i + 1); x[i], x[j] = x[j], x[i]\<close>.
\<close>

fun shuffle_from :: "nat \<Rightarrow> 'a list \<Rightarrow> world \<Rightarrow> 'a list \<times> world" where
  "shuffle_from 0 x w = (x, w)"
| "shuffle_from (Suc i) x w =
     (let (j, w) = randbelow (Suc i + 1) w
      in shuffle_from i (x[Suc i := x ! j, j := x ! Suc i]) w)"

definition shuffle :: "'a list \<Rightarrow> world \<Rightarrow> 'a list \<times> world" where
  "shuffle x w = shuffle_from (length x - 1) x w"

text \<open>\<^verbatim>\<open>random.choice(seq)\<close> and \<^verbatim>\<open>random.randint(a, b)\<close>.\<close>

definition choice :: "'a list \<Rightarrow> world \<Rightarrow> (error + 'a) \<times> world" where
  "choice seq w =
    (if seq = [] then (Inl IndexError, w)
     else (let (k, w) = randbelow (length seq) w in (py_index seq k, w)))"

definition randint :: "int \<Rightarrow> int \<Rightarrow> world \<Rightarrow> int \<times> world" where
  "randint a b w = (let (k, w) = randbelow (nat (b - a + 1)) w in (a + int k, w))"

text \<open>
  The text-to-text model behind \<^verbatim>\<open>_generate_text\<close>: from the number of the call, the
  prompt and \<^verbatim>\<open>max_length\<close> it yields the decoded text, or \<^term>\<open>None\<close> when the tokenizer
  or the model raises.
\<close>

type_synonym language_model = "nat \<Rightarrow> string \<Rightarrow> nat \<Rightarrow> string option"

record question_generator =
  model :: language_model
  model_loaded :: bool

section \<open>generator.py\<close>

definition generate_text :: "question_generator \<Rightarrow> string \<Rightarrow> nat \<Rightarrow> world \<Rightarrow> string \<times> world" where
  "generate_text self prompt max_length w =
    (let w' = w\<lparr>calls := calls w + 1\<rparr>
     in case model self (calls w) prompt max_length of
          None \<Rightarrow> (''Generated content'', w')
        | Some generated_text \<Rightarrow> (strip generated_text, w'))"

text \<open>
  The pattern \<^verbatim>\<open>Options?:\s*[A-D]\..*$\<close> under \<^verbatim>\<open>IGNORECASE | DOTALL\<close> matches at the head
  of \<open>s\<close>; the tail \<^verbatim>\<open>.*$\<close> then takes the rest of the string.
\<close>

definition match_options :: "string \<Rightarrow> bool" where
  "match_options s =
    (startswith (lower s) ''option'' \<and>
     (let r = drop 6 s;
          r = (case r of c # r' \<Rightarrow> if lower_char c = CHR ''s'' then r' else r | [] \<Rightarrow> r)
      in case r of
           c # r' \<Rightarrow>
             c = CHR '':'' \<and>
             (case dropWhile isspace r' of
                a # d # r'' \<Rightarrow> lower_char a \<in> set ''abcd'' \<and> d = CHR ''.''
              | _ \<Rightarrow> False)
         | [] \<Rightarrow> False))"

text \<open>The pattern \<^verbatim>\<open>Answer:\s*[A-D].*$\<close> under the same flags.\<close>

definition match_answer :: "string \<Rightarrow> bool" where
  "match_answer s =
    (startswith (lower s) ''answer:'' \<and>
     (case dropWhile isspace (drop 7 s) of
        a # r \<Rightarrow> lower_char a \<in> set ''abcd''
      | [] \<Rightarrow> False))"

text \<open>
  \<^verbatim>\<open>re.sub(pattern, '', s)\<close> for a pattern that runs to the end of the string: the text
  before the leftmost match.
\<close>

fun cut_at :: "(string \<Rightarrow> bool) \<Rightarrow> string \<Rightarrow> string" where
  "cut_at m [] = []"
| "cut_at m (c # cs) = (if m (c # cs) then [] else c # cut_at m cs)"

definition clean_question_text :: "string \<Rightarrow> string" where
  "clean_question_text question_text =
    (let question_text = strip question_text;
         question_text =
           (if startswith question_text ''Question:'' then dropWhile isspace (drop 9 question_text)
            else if startswith question_text ''Q:'' then dropWhile isspace (drop 2 question_text)
            else question_text);
         question_text =
           (if \<not> endswith question_text ''?'' then question_text @ ''?'' else question_text);
         question_text = cut_at match_options question_text;
         question_text = cut_at match_answer question_text
     in strip question_text)"

text \<open>
  The loop \<^verbatim>\<open>for i in range(3)\<close> of \<^verbatim>\<open>_generate_enhanced_distractors\<close>. Nothing in its
  \<^verbatim>\<open>try\<close> block raises (\<^verbatim>\<open>_generate_text\<close> catches every exception itself), so the
  \<^verbatim>\<open>except\<close> branch has no counterpart here.
\<close>

fun distractor_loop :: "question_generator \<Rightarrow> string \<Rightarrow> string \<Rightarrow> nat list \<Rightarrow> string list \<Rightarrow> world
    \<Rightarrow> string list \<times> world" where
  "distractor_loop self distractor_prompt correct_answer [] distractors w = (distractors, w)"
| "distractor_loop self distractor_prompt correct_answer (i # rest) distractors w =
     (let (distractor_text, w) = generate_text self distractor_prompt 50 w;
          distractor = strip distractor_text
      in if distractor \<noteq> [] \<and> distractor \<noteq> correct_answer \<and> distractor \<notin> set distractors
         then distractor_loop self distractor_prompt correct_answer rest
                (distractors @ [distractor]) w
         else (let fallback = ''Alternative option '' @ str_of_nat (i + 1)
               in distractor_loop self distractor_prompt correct_answer rest
                    (distractors @ [fallback]) w))"

text \<open>The loop \<^verbatim>\<open>while len(distractors) < 3\<close>.\<close>

function pad_distractors :: "string list \<Rightarrow> string list" where
  "pad_distractors distractors =
     (if length distractors < 3
      then pad_distractors
             (distractors @ [''Additional option '' @ str_of_nat (length distractors + 1)])
      else distractors)"
  by pat_completeness auto
termination
  by (relation "measure (\<lambda>distractors. 3 - length distractors)") auto

declare pad_distractors.simps [simp del]

definition generate_enhanced_distractors :: "question_generator \<Rightarrow> string \<Rightarrow> string \<Rightarrow> string \<Rightarrow> string
    \<Rightarrow> world \<Rightarrow> string list \<times> world" where
  "generate_enhanced_distractors self correct_answer context difficulty subject_area w =
    (let distractor_type =
           (if lower difficulty = ''easy'' then ''factual''
            else if lower difficulty = ''hard'' then ''analytical''
            else ''conceptual'');
         distractor_prompt = get_distractor_prompt distractor_type correct_answer context;
         (distractors, w) = distractor_loop self distractor_prompt correct_answer [0, 1, 2] [] w;
         distractors = pad_distractors distractors
     in (take 3 distractors, w))"

definition determine_bloom_level :: "string \<Rightarrow> string \<Rightarrow> error + string" where
  "determine_bloom_level question_text difficulty =
    (let question_lower = lower question_text
     in and_then (get_bloom_level_for_difficulty difficulty)
        (\<lambda>primary_level.
     case find (\<lambda>(level, starters).
                  list_ex (\<lambda>starter. startswith question_lower (lower starter)) starters)
            BLOOM_QUESTION_STARTERS of
       Some (level, starters) \<Rightarrow> Inr level
     | None \<Rightarrow> Inr primary_level))"

definition generate_enhanced_explanation :: "question_generator \<Rightarrow> string \<Rightarrow> string \<Rightarrow> string \<Rightarrow> string
    \<Rightarrow> world \<Rightarrow> string \<times> world" where
  "generate_enhanced_explanation self question answer context difficulty w =
    (let explanation_type =
           (if lower difficulty = ''easy'' then ''basic''
            else if lower difficulty = ''hard'' then ''analytical''
            else ''detailed'');
         explanation_prompt = get_explanation_prompt explanation_type answer question;
         (explanation, w) = generate_text self explanation_prompt 150 w
     in (strip explanation, w))"

text \<open>\<^verbatim>\<open>range(n)\<close> for an integer \<open>n\<close>: empty when \<open>n\<close> is not positive.\<close>

definition py_range :: "int \<Rightarrow> nat list" where
  "py_range n = [0 ..< nat n]"

text \<open>
  \<^verbatim>\<open>_generate_mock_questions\<close>: the body of the loop for the index \<open>i\<close>, and the loop. The
  variable \<^verbatim>\<open>term\<close> is read only when \<^verbatim>\<open>key_terms\<close> is not empty.
\<close>

definition mock_question :: "string list \<Rightarrow> nat \<Rightarrow> world \<Rightarrow> (error + question_dict) \<times> world" where
  "mock_question key_terms i w =
    (case (if key_terms \<noteq> []
           then and_then (py_mod i (length key_terms))
                  (\<lambda>k. and_then (py_index key_terms k)
                  (\<lambda>term. Inr (term, ''What is the significance of '' @ apostrophe @ term
                                      @ apostrophe @ '' in the given context?'')))
           else Inr (''main topic'',
                     ''What is the main topic discussed in question '' @ str_of_nat (i + 1)
                     @ ''?'')) of
       Inl e \<Rightarrow> (Inl e, w)
     | Inr (term_or_main_topic, question_text) \<Rightarrow>
        (let correct_answer = ''Key concept related to '' @ term_or_main_topic;
             distractors = [''Alternative concept A'', ''Alternative concept B'',
                            ''Alternative concept C''];
             options = [correct_answer] @ distractors;
             (options, w) = shuffle options w;
             explanation = ''Based on the provided text, the correct answer relates to the main concepts discussed.'';
             question_data = \<lparr>q_id = None, q_question = Some question_text,
               q_options = Some options, q_correct_answer = Some correct_answer,
               q_explanation = Some explanation, q_difficulty = Some ''medium'',
               q_bloom_level = Some ''understand'', q_category = None, q_subject_area = None,
               q_key_concept = None, q_created_at = None\<rparr>
         in (Inr question_data, w)))"

fun mock_loop :: "string list \<Rightarrow> nat list \<Rightarrow> question_dict list \<Rightarrow> world
    \<Rightarrow> (error + question_dict list) \<times> world" where
  "mock_loop key_terms [] questions w = (Inr questions, w)"
| "mock_loop key_terms (i # rest) questions w =
     (case mock_question key_terms i w of
        (Inl e, w) \<Rightarrow> (Inl e, w)
      | (Inr question_data, w) \<Rightarrow> mock_loop key_terms rest (questions @ [question_data]) w)"

definition mock_key_terms :: "string \<Rightarrow> string list" where
  "mock_key_terms text =
    (let words = str_split text
     in take 10 (map (\<lambda>word. strip_chars word ''.,!?'') (filter (\<lambda>word. length word > 5) words)))"

definition generate_mock_questions :: "string \<Rightarrow> int \<Rightarrow> world \<Rightarrow> (error + question_dict list) \<times> world" where
  "generate_mock_questions text num_questions w =
    (let key_terms = mock_key_terms text
     in mock_loop key_terms (py_range num_questions) [] w)"

text \<open>
  The body of the \<^verbatim>\<open>try\<close> block of \<^verbatim>\<open>generate_mcq\<close> for one question slot: the question
  dictionary, or the exception that makes the loop skip the slot, with the state reached.
\<close>

definition question_slot :: "question_generator \<Rightarrow> string \<Rightarrow> string list \<Rightarrow> nat \<Rightarrow> string \<Rightarrow> string
    \<Rightarrow> world \<Rightarrow> (error + question_dict) \<times> world" where
  "question_slot self chunk chunk_concepts q_index difficulty subject_area w =
    (case (if chunk_concepts \<noteq> []
           then and_then (py_mod q_index (length chunk_concepts)) (py_index chunk_concepts)
           else Inr ''main concept'') of
       Inl e \<Rightarrow> (Inl e, w)
     | Inr concept \<Rightarrow>
        (let question_prompt = get_difficulty_prompt difficulty chunk;
             (question_text, w) = generate_text self question_prompt 100 w;
             question_text = clean_question_text question_text;
             answer_prompt = ''Based on this text about '' @ concept
               @ '', what is the correct answer to: '' @ question_text @ ''? Context: '' @ chunk;
             (correct_answer, w) = generate_text self answer_prompt 50 w;
             correct_answer = strip correct_answer;
             (distractors, w) =
               generate_enhanced_distractors self correct_answer chunk difficulty subject_area w;
             options = [correct_answer] @ distractors;
             (options, w) = shuffle options w
         in case determine_bloom_level question_text difficulty of
              Inl e \<Rightarrow> (Inl e, w)
            | Inr bloom_level \<Rightarrow>
               (let (explanation, w) =
                      generate_enhanced_explanation self question_text correct_answer chunk
                        difficulty w;
                    question_data = \<lparr>q_id = None, q_question = Some question_text,
                      q_options = Some options, q_correct_answer = Some correct_answer,
                      q_explanation = Some explanation, q_difficulty = Some difficulty,
                      q_bloom_level = Some bloom_level, q_category = None,
                      q_subject_area = Some subject_area, q_key_concept = Some concept,
                      q_created_at = None\<rparr>
                in (Inr question_data, w))))"

text \<open>
  The loop \<^verbatim>\<open>for q_index in range(chunk_questions)\<close> on \<^verbatim>\<open>questions\<close>,
  \<^verbatim>\<open>remaining_questions\<close> and the state; an exception skips the slot.
\<close>

fun question_loop :: "question_generator \<Rightarrow> string \<Rightarrow> string list \<Rightarrow> string \<Rightarrow> string \<Rightarrow> nat list
    \<Rightarrow> question_dict list \<times> int \<times> world \<Rightarrow> question_dict list \<times> int \<times> world" where
  "question_loop self chunk chunk_concepts difficulty subject_area [] st = st"
| "question_loop self chunk chunk_concepts difficulty subject_area (q_index # rest)
     (questions, remaining_questions, w) =
     (case question_slot self chunk chunk_concepts q_index difficulty subject_area w of
        (Inl e, w) \<Rightarrow>
          question_loop self chunk chunk_concepts difficulty subject_area rest
            (questions, remaining_questions, w)
      | (Inr question_data, w) \<Rightarrow>
          question_loop self chunk chunk_concepts difficulty subject_area rest
            (questions @ [question_data], remaining_questions - 1, w))"

text \<open>The loop \<^verbatim>\<open>for chunk_index, chunk in enumerate(text_chunks)\<close>.\<close>

fun chunk_loop :: "question_generator \<Rightarrow> (rat \<Rightarrow> rat \<Rightarrow> 'a::linorder) \<Rightarrow> string \<Rightarrow> string \<Rightarrow> int \<Rightarrow> nat
    \<Rightarrow> (nat \<times> string) list \<Rightarrow> question_dict list \<times> int \<times> world
    \<Rightarrow> (error + question_dict list) \<times> world" where
  "chunk_loop self tfidf difficulty subject_area questions_per_chunk n_chunks []
     (questions, remaining_questions, w) = (Inr questions, w)"
| "chunk_loop self tfidf difficulty subject_area questions_per_chunk n_chunks
     ((chunk_index, chunk) # rest) (questions, remaining_questions, w) =
     (if remaining_questions \<le> 0 then (Inr questions, w)
      else (let chunk_questions = min questions_per_chunk remaining_questions;
                chunk_questions =
                  (if int chunk_index = int n_chunks - 1 then remaining_questions
                   else chunk_questions)
            in case extract_key_concepts tfidf chunk of
                 Inl e \<Rightarrow> (Inl e, w)
               | Inr chunk_concepts \<Rightarrow>
                   chunk_loop self tfidf difficulty subject_area questions_per_chunk n_chunks rest
                     (question_loop self chunk chunk_concepts difficulty subject_area
                        (py_range chunk_questions) (questions, remaining_questions, w))))"

definition generate_mcq :: "question_generator \<Rightarrow> (rat \<Rightarrow> rat \<Rightarrow> 'a::linorder) \<Rightarrow> string \<Rightarrow> int \<Rightarrow> string
    \<Rightarrow> world \<Rightarrow> (error + question_dict list) \<times> world" where
  "generate_mcq self tfidf text num_questions difficulty w =
    (if \<not> model_loaded self then generate_mock_questions text num_questions w
     else
       (case analyze_text_complexity tfidf text of
          Inl e \<Rightarrow> (Inl e, w)
        | Inr text_analysis \<Rightarrow>
           (let subject_area = detect_subject_area text;
                text_chunks = preprocess_text text
            in case py_floordiv num_questions (int (length text_chunks)) of
                 Inl e \<Rightarrow> (Inl e, w)
               | Inr floor_quotient \<Rightarrow>
                  (let questions_per_chunk = max 1 floor_quotient;
                       remaining_questions = num_questions
                   in case chunk_loop self tfidf difficulty subject_area questions_per_chunk
                             (length text_chunks) (enumerate 0 text_chunks)
                             ([], remaining_questions, w) of
                        (Inl e, w) \<Rightarrow> (Inl e, w)
                      | (Inr questions, w) \<Rightarrow>
                         (if length questions > 1
                          then (case group_questions_by_topic tfidf questions text of
                                  Inl e \<Rightarrow> (Inl e, w)
                                | Inr grouped_questions \<Rightarrow> (Inr questions, w))
                          else (Inr questions, w))))))"

section \<open>gemini\_generator.py\<close>

text \<open>
  What one call of \<^verbatim>\<open>model.generate_content\<close> comes to in
  \<^verbatim>\<open>_generate_questions_with_gemini\<close>: the call raises, or the response has no text, or
  its text is parsed by \<^verbatim>\<open>_parse_gemini_response\<close> into a list of dictionaries (the
  empty list when the text is not a JSON array). The response is a function of the number
  of the call only; the prompt is not modelled.
\<close>

datatype gemini_response = ApiError | NoText | Parsed "question_dict list"

record gemini_question_generator =
  g_model :: "nat \<Rightarrow> gemini_response"
  g_model_loaded :: bool

definition gemini_term_or :: "string list \<Rightarrow> nat \<Rightarrow> string \<Rightarrow> error + string" where
  "gemini_term_or key_terms i dflt =
    (if length key_terms > i then py_index key_terms i else Inr dflt)"

definition gemini_mock_question :: "string list \<Rightarrow> nat \<Rightarrow> world \<Rightarrow> (error + question_dict) \<times> world" where
  "gemini_mock_question key_terms i w =
    (case (if key_terms \<noteq> []
           then (case choice key_terms w of
                   (Inl e, w) \<Rightarrow> (Inl e, w)
                 | (Inr term, w) \<Rightarrow>
                     (Inr (''What is the significance of '' @ term @ '' in the given context?''), w))
           else (Inr ''Based on the text, which statement is most accurate?'', w)) of
       (Inl e, w) \<Rightarrow> (Inl e, w)
     | (Inr question_text, w) \<Rightarrow>
        (case and_then (gemini_term_or key_terms 0 ''concept'') (\<lambda>t0.
              and_then (gemini_term_or key_terms 1 ''topic'') (\<lambda>t1.
              and_then (gemini_term_or key_terms 2 ''subject'') (\<lambda>t2.
              and_then (gemini_term_or key_terms 3 ''theme'') (\<lambda>t3.
                Inr [''Option A: Related to '' @ t0, ''Option B: Connected to '' @ t1,
                     ''Option C: Associated with '' @ t2, ''Option D: Linked to '' @ t3])))) of
           Inl e \<Rightarrow> (Inl e, w)
         | Inr options \<Rightarrow>
            (case py_index options 0 of
               Inl e \<Rightarrow> (Inl e, w)
             | Inr correct_answer \<Rightarrow>
                (Inr \<lparr>q_id = Some (9000 + int i), q_question = Some question_text,
                   q_options = Some options, q_correct_answer = Some correct_answer,
                   q_explanation = Some ''This is a mock explanation for demonstration purposes. The correct answer relates to the key concepts in the text.'',
                   q_difficulty = Some ''medium'', q_bloom_level = Some ''understand'',
                   q_category = Some ''Mock Questions'', q_subject_area = Some ''general'',
                   q_key_concept = None, q_created_at = Some ''2025-09-04''\<rparr>, w))))"

fun gemini_mock_loop :: "string list \<Rightarrow> nat list \<Rightarrow> question_dict list \<Rightarrow> world
    \<Rightarrow> (error + question_dict list) \<times> world" where
  "gemini_mock_loop key_terms [] questions w = (Inr questions, w)"
| "gemini_mock_loop key_terms (i # rest) questions w =
     (case gemini_mock_question key_terms i w of
        (Inl e, w) \<Rightarrow> (Inl e, w)
      | (Inr question, w) \<Rightarrow> gemini_mock_loop key_terms rest (questions @ [question]) w)"

definition gemini_generate_mock_questions :: "string \<Rightarrow> int \<Rightarrow> world
    \<Rightarrow> (error + question_dict list) \<times> world" where
  "gemini_generate_mock_questions text num_questions w =
    (let key_terms = mock_key_terms text
     in gemini_mock_loop key_terms (py_range num_questions) [] w)"

text \<open>
  \<^verbatim>\<open>_structure_question\<close>: \<^term>\<open>None\<close> for a dictionary it rejects, and for an exception in
  its \<^verbatim>\<open>try\<close> block.
\<close>

definition gemini_structure_question :: "question_dict \<Rightarrow> string \<Rightarrow> string \<Rightarrow> world
    \<Rightarrow> question_dict option \<times> world" where
  "gemini_structure_question q_data difficulty subject_area w =
    (case (q_question q_data, q_options q_data, q_correct_answer q_data, q_explanation q_data) of
       (Some question_text, Some options, Some correct_answer, Some explanation) \<Rightarrow>
         (if length options \<noteq> 4 then (None, w)
          else if correct_answer \<notin> set options then (None, w)
          else (let (new_id, w) = randint 1000 9999 w
                in case get_bloom_level_for_difficulty difficulty of
                     Inl e \<Rightarrow> (None, w)
                   | Inr default_bloom_level \<Rightarrow>
                      (Some \<lparr>q_id = Some new_id,
                         q_question = Some (strip question_text),
                         q_options = Some options,
                         q_correct_answer = Some correct_answer,
                         q_explanation = Some (strip explanation),
                         q_difficulty = Some (lower (dict_get (q_difficulty q_data) difficulty)),
                         q_bloom_level = Some (dict_get (q_bloom_level q_data) default_bloom_level),
                         q_category = Some (dict_get (q_category q_data) subject_area),
                         q_subject_area = Some subject_area,
                         q_key_concept = None,
                         q_created_at = Some ''2025-09-04''\<rparr>, w)))
     | _ \<Rightarrow> (None, w))"

text \<open>The loop over the parsed dictionaries: a rejected one is left out.\<close>

fun gemini_structure_loop :: "question_dict list \<Rightarrow> string \<Rightarrow> string \<Rightarrow> question_dict list \<Rightarrow> world
    \<Rightarrow> question_dict list \<times> world" where
  "gemini_structure_loop [] difficulty subject_area questions w = (questions, w)"
| "gemini_structure_loop (q_data # rest) difficulty subject_area questions w =
     (case gemini_structure_question q_data difficulty subject_area w of
        (None, w) \<Rightarrow> gemini_structure_loop rest difficulty subject_area questions w
      | (Some question, w) \<Rightarrow>
          gemini_structure_loop rest difficulty subject_area (questions @ [question]) w)"

text \<open>
  \<^verbatim>\<open>_generate_questions_with_gemini\<close>. Its argument \<^verbatim>\<open>text\<close> is the list of chunks that
  \<^verbatim>\<open>generate_mcq\<close> passes; the handler of its \<^verbatim>\<open>try\<close> block calls
  \<^verbatim>\<open>_generate_mock_questions\<close> on that list, where \<^verbatim>\<open>text.split()\<close> raises.
\<close>

definition gemini_generate_questions_with_gemini :: "gemini_question_generator \<Rightarrow> string list \<Rightarrow> int
    \<Rightarrow> string \<Rightarrow> string \<Rightarrow> world \<Rightarrow> (error + question_dict list) \<times> world" where
  "gemini_generate_questions_with_gemini self text num_questions difficulty subject_area w =
    (case get_bloom_level_for_difficulty difficulty of
       Inl e \<Rightarrow> (Inl e, w)
     | Inr bloom_level \<Rightarrow>
        (let response = g_model self (calls w);
             w = w\<lparr>calls := calls w + 1\<rparr>
         in case response of
              ApiError \<Rightarrow> (Inl AttributeError, w)
            | NoText \<Rightarrow> (Inr [], w)
            | Parsed questions_data \<Rightarrow>
               (let (questions, w) =
                      gemini_structure_loop (take (nat num_questions) questions_data)
                        difficulty subject_area [] w
                in (Inr questions, w))))"

definition gemini_generate_mcq :: "gemini_question_generator \<Rightarrow> (rat \<Rightarrow> rat \<Rightarrow> 'a::linorder) \<Rightarrow> string
    \<Rightarrow> int \<Rightarrow> string \<Rightarrow> world \<Rightarrow> (error + question_dict list) \<times> world" where
  "gemini_generate_mcq self tfidf text num_questions difficulty w =
    (case (if \<not> g_model_loaded self then gemini_generate_mock_questions text num_questions w
           else (let difficulty = lower difficulty;
                     processed_text = preprocess_text text
                 in case analyze_text_complexity tfidf text of
                      Inl e \<Rightarrow> (Inl e, w)
                    | Inr complexity \<Rightarrow>
                       (let subject_area = detect_subject_area text
                        in gemini_generate_questions_with_gemini self processed_text
                             num_questions difficulty subject_area w))) of
       (Inl e, w) \<Rightarrow> gemini_generate_mock_questions text num_questions w
     | (Inr questions, w) \<Rightarrow> (Inr questions, w))"

section \<open>Invariants of a question dictionary\<close>

text \<open>
  The correct answer is one of the options and there are four options; with the options
  pairwise distinct in addition.
\<close>

definition options_shape :: "question_dict \<Rightarrow> bool" where
  "options_shape q =
    (case (q_options q, q_correct_answer q) of
       (Some options, Some correct_answer) \<Rightarrow>
          correct_answer \<in> set options \<and> length options = 4
     | _ \<Rightarrow> False)"

definition options_invariant :: "question_dict \<Rightarrow> bool" where
  "options_invariant q =
    (case (q_options q, q_correct_answer q) of
       (Some options, Some correct_answer) \<Rightarrow>
          correct_answer \<in> set options \<and> length options = 4 \<and> distinct options
     | _ \<Rightarrow> False)"

section \<open>Example inputs\<close>

definition empty_dict :: question_dict where
  "empty_dict = \<lparr>q_id = None, q_question = None, q_options = None, q_correct_answer = None,
     q_explanation = None, q_difficulty = None, q_bloom_level = None, q_category = None,
     q_subject_area = None, q_key_concept = None, q_created_at = None\<rparr>"

definition paris_question :: question_dict where
  "paris_question = empty_dict\<lparr>
     q_question := Some ''What is the capital of France?'',
     q_options := Some [''Paris'', ''Paris'', ''London'', ''Berlin''],
     q_correct_answer := Some ''Paris'',
     q_explanation := Some ''Paris is the capital of France.''\<rparr>"

definition two_option_question :: question_dict where
  "two_option_question = empty_dict\<lparr>
     q_question := Some ''What is the capital of France?'',
     q_options := Some [''Paris'', ''London''],
     q_correct_answer := Some ''Paris'',
     q_explanation := Some ''Paris is the capital of France.''\<rparr>"

definition mitochondria_text :: string where
  "mitochondria_text =
     ''The mitochondria is the powerhouse of the cell. It produces ATP through respiration.''"

text \<open>
  A stand-in for the floating-point tf-idf score, used only to run the examples below; the
  general theorems hold for every scoring function.
\<close>

definition product_score :: "rat \<Rightarrow> rat \<Rightarrow> rat" where
  "product_score tf ratio = tf * ratio"

definition start_world :: world where
  "start_world = \<lparr>calls = 0, draws = []\<rparr>"





text \<open>A language model that answers every prompt with the same text.\<close>

definition echo_generator :: question_generator where
  "echo_generator = \<lparr>model = (\<lambda>i prompt max_length. Some ''Alternative option 1''),
     model_loaded = True\<rparr>"

text \<open>The two generators when their model failed to load.\<close>

definition unloaded_generator :: question_generator where
  "unloaded_generator = \<lparr>model = (\<lambda>i prompt max_length. None), model_loaded = False\<rparr>"

definition unloaded_gemini :: gemini_question_generator where
  "unloaded_gemini = \<lparr>g_model = (\<lambda>i. ApiError), g_model_loaded = False\<rparr>"

section \<open>Properties of the validator\<close>

lemma avg_option_length_ok: "\<exists>a. avg_option_length opts = Inr a"
  by (simp add: avg_option_length_def py_truediv_def)

text \<open>
  Claim C3. For every question dictionary (any question text, any list of options, the
  empty one included, any correct answer, any explanation, and any of these keys absent),
  with or without the embedding model and whatever that model returns or raises,
  \<^verbatim>\<open>validate_question_quality\<close> returns a result, raising nothing, and the score of the
  result is an integer between 0 and 100.
\<close>

theorem validate_score_in_range:
  "\<exists>r. validate_question_quality sim q = Inr r \<and> 0 \<le> score r \<and> score r \<le> 100"
proof -
  obtain a where a: "avg_option_length (dict_get (q_options q) []) = Inr a"
    using avg_option_length_ok by blast
  show ?thesis
    by (simp add: validate_question_quality_def Let_def a split_def)
qed

lemma paris_card: "card (set [''Paris'', ''Paris'', ''London'', ''Berlin'']) = 3"
  by (simp add: card_set)

lemma paris_avg:
  "avg_option_length [''Paris'', ''Paris'', ''London'', ''Berlin''] = Inr (11 / 2)"
  by (simp add: avg_option_length_def py_truediv_def)

text \<open>
  Claim C7. For the options Paris, Paris, London, Berlin with correct answer Paris, when
  no other rule is violated (the question text ends with a question mark and has between
  10 and 200 characters, the explanation has at least 10 characters, the distractor
  score is at least 50), the validator deducts the 25 points of the duplicate-options
  rule only: the score is 75 and the feedback is the message "Duplicate options found".
\<close>

theorem duplicate_options_scenario:
  assumes "q_question q = Some qt" and "endswith qt ''?''"
    and "10 \<le> length qt" and "length qt \<le> 200"
    and "q_options q = Some [''Paris'', ''Paris'', ''London'', ''Berlin'']"
    and "q_correct_answer q = Some ''Paris''"
    and "q_explanation q = Some ex" and "10 \<le> length ex"
    and "50 \<le> score_distractor_quality sim [''Paris'', ''Paris'', ''London'', ''Berlin''] ''Paris''"
  shows "\<exists>r. validate_question_quality sim q = Inr r \<and> score r = 75
           \<and> feedback r = ''Duplicate options found''"
  using assms
  by (simp add: validate_question_quality_def Let_def dict_get_def paris_avg penalties_def
      deduct_def paris_card)

theorem duplicate_options_scenario_witness:
  "q_question paris_question = Some ''What is the capital of France?''
   \<and> endswith ''What is the capital of France?'' ''?''
   \<and> 10 \<le> length ''What is the capital of France?''
   \<and> length ''What is the capital of France?'' \<le> 200
   \<and> q_options paris_question = Some [''Paris'', ''Paris'', ''London'', ''Berlin'']
   \<and> q_correct_answer paris_question = Some ''Paris''
   \<and> q_explanation paris_question = Some ''Paris is the capital of France.''
   \<and> 10 \<le> length ''Paris is the capital of France.''
   \<and> 50 \<le> score_distractor_quality None [''Paris'', ''Paris'', ''London'', ''Berlin''] ''Paris''
   \<and> (\<exists>r. validate_question_quality None paris_question = Inr r \<and> score r = 75
           \<and> feedback r = ''Duplicate options found'')"
proof -
  have h1: "q_question paris_question = Some ''What is the capital of France?''"
    and h5: "q_options paris_question = Some [''Paris'', ''Paris'', ''London'', ''Berlin'']"
    and h6: "q_correct_answer paris_question = Some ''Paris''"
    and h7: "q_explanation paris_question = Some ''Paris is the capital of France.''"
    by (simp_all add: paris_question_def empty_dict_def)
  have h2: "endswith ''What is the capital of France?'' ''?''"
    by (simp add: endswith_def)
  have h3: "10 \<le> length ''What is the capital of France?''"
    and h4: "length ''What is the capital of France?'' \<le> 200"
    and h8: "10 \<le> length ''Paris is the capital of France.''"
    by simp_all
  have h9: "50 \<le> score_distractor_quality None [''Paris'', ''Paris'', ''London'', ''Berlin''] ''Paris''"
    by (simp add: score_distractor_quality_def)
  from duplicate_options_scenario [OF h1 h2 h3 h4 h5 h6 h7 h8 h9] h1 h2 h3 h4 h5 h6 h7 h8 h9
  show ?thesis by blast
qed

text \<open>
  Claim C8, as stated, fails: the key \<^verbatim>\<open>distractor_quality\<close> is written only inside
  \<^verbatim>\<open>if len(options) >= 4\<close>. A question with two options gets a result whose metrics
  lack it.
\<close>

theorem metrics_keys_counterexample:
  "quality_metrics (projr (validate_question_quality None two_option_question))
     ''distractor_quality'' = None
   \<and> \<not> isl (validate_question_quality None two_option_question)"
  by (simp add: validate_question_quality_def two_option_question_def empty_dict_def Let_def
      dict_get_def avg_option_length_def py_truediv_def penalties_def deduct_def endswith_def)

text \<open>
  Claim C8, amended. For every question dictionary the metrics of the result have
  exactly these keys: \<^verbatim>\<open>question_length\<close>, \<^verbatim>\<open>option_count\<close>, \<^verbatim>\<open>explanation_length\<close>,
  \<^verbatim>\<open>has_question_mark\<close>, \<^verbatim>\<open>unique_options\<close> and \<^verbatim>\<open>bloom_level\<close>, and in addition
  \<^verbatim>\<open>distractor_quality\<close> when, and only when, the question has at least four options.
\<close>

theorem metrics_keys:
  "\<exists>r. validate_question_quality sim q = Inr r \<and>
     dom (quality_metrics r) =
       {''question_length'', ''option_count'', ''explanation_length'',
        ''has_question_mark'', ''unique_options'', ''bloom_level''}
       \<union> (if 4 \<le> length (dict_get (q_options q) []) then {''distractor_quality''} else {})"
proof -
  obtain a where a: "avg_option_length (dict_get (q_options q) []) = Inr a"
    using avg_option_length_ok by blast
  show ?thesis
    by (auto simp add: validate_question_quality_def Let_def a split_def penalties_def
        split: option.splits)
qed

theorem metrics_keys_witness:
  "4 \<le> length (dict_get (q_options paris_question) [])
   \<and> (\<exists>r. validate_question_quality None paris_question = Inr r \<and>
     dom (quality_metrics r) =
       {''question_length'', ''option_count'', ''explanation_length'',
        ''has_question_mark'', ''unique_options'', ''bloom_level'', ''distractor_quality''})"
proof -
  have h: "4 \<le> length (dict_get (q_options paris_question) [])"
    by (simp add: paris_question_def empty_dict_def dict_get_def)
  from metrics_keys [of None paris_question] h show ?thesis
    by (simp add: insert_commute)
qed

section \<open>Properties of the text analysis\<close>

lemma group_sentences_short:
  "current_word_count + sum_list (map (\<lambda>s. length (str_split s)) sentences) < 200 \<Longrightarrow>
   group_sentences sentences chunks current_chunk current_word_count = (chunks', cur', cwc') \<Longrightarrow>
   chunks' = chunks \<and> cwc' < 200"
proof (induction sentences arbitrary: chunks current_chunk current_word_count)
  case Nil
  then show ?case by simp
next
  case (Cons s rest)
  show ?case
  proof (cases "current_word_count + length (str_split s) > 300 \<and> current_chunk \<noteq> []")
    case True
    with Cons.prems(1) show ?thesis by simp
  next
    case False
    with Cons.prems have
      "group_sentences rest chunks (current_chunk @ [s])
         (current_word_count + length (str_split s)) = (chunks', cur', cwc')"
      by (simp add: Let_def)
    moreover from Cons.prems(1) have
      "(current_word_count + length (str_split s))
         + sum_list (map (\<lambda>s. length (str_split s)) rest) < 200"
      by simp
    ultimately show ?thesis using Cons.IH by blast
  qed
qed

lemma full_chunks_short:
  assumes "sum_list (map (\<lambda>s. length (str_split s)) (split_sentences cleaned)) < 200"
  shows "full_chunks cleaned = []"
proof -
  obtain chunks' cur' cwc' where
    g: "group_sentences (split_sentences cleaned) [] [] 0 = (chunks', cur', cwc')"
    by (metis prod_cases3)
  from group_sentences_short [OF _ g] assms have "chunks' = []" "cwc' < 200" by simp_all
  then show ?thesis by (simp add: full_chunks_def g)
qed

text \<open>
  Claim C4. \<^verbatim>\<open>preprocess_text\<close> returns a non-empty list of chunks for every text (so for
  every non-empty one). When no accumulated chunk reaches 200 words, that is when the
  loop and the test after it add no chunk, the result is the single chunk made of the
  cleaned text; this is the case whenever the sentences of the cleaned text have fewer
  than 200 words in all.
\<close>

theorem preprocess_text_nonempty:
  "preprocess_text text \<noteq> []
   \<and> (full_chunks (clean_text text) = [] \<longrightarrow> preprocess_text text = [clean_text text])
   \<and> (sum_list (map (\<lambda>s. length (str_split s)) (split_sentences (clean_text text))) < 200
        \<longrightarrow> preprocess_text text = [clean_text text])"
  using full_chunks_short [of "clean_text text"]
  by (simp add: preprocess_text_def Let_def)

lemma mitochondria_words:
  "sum_list (map (\<lambda>s. length (str_split s)) (split_sentences (clean_text mitochondria_text))) = 13"
  by code_simp

lemma mitochondria_clean: "clean_text mitochondria_text = mitochondria_text"
  by code_simp

theorem preprocess_text_nonempty_witness:
  "mitochondria_text \<noteq> []
   \<and> sum_list (map (\<lambda>s. length (str_split s))
        (split_sentences (clean_text mitochondria_text))) < 200
   \<and> full_chunks (clean_text mitochondria_text) = []
   \<and> preprocess_text mitochondria_text = [mitochondria_text]"
proof -
  have h: "sum_list (map (\<lambda>s. length (str_split s))
        (split_sentences (clean_text mitochondria_text))) < 200"
    by (simp add: mitochondria_words)
  have f: "full_chunks (clean_text mitochondria_text) = []"
    using h by (rule full_chunks_short)
  have n: "mitochondria_text \<noteq> []"
    by (simp add: mitochondria_text_def)
  from preprocess_text_nonempty [of mitochondria_text] h f n show ?thesis
    by (simp add: mitochondria_clean)
qed

lemma counter_add_keys:
  "map fst (counter_add x al) = (if x \<in> fst ` set al then map fst al else map fst al @ [x])"
  by (induction al) (force+)

lemma counter_add_pos:
  "\<forall>(w, f) \<in> set al. 0 < f \<Longrightarrow> \<forall>(w, f) \<in> set (counter_add x al). 0 < f"
  by (induction al) (auto split: if_splits)

lemma fold_counter_add:
  "distinct (map fst al) \<Longrightarrow> \<forall>(w, f) \<in> set al. 0 < f \<Longrightarrow>
   distinct (map fst (fold counter_add xs al))
   \<and> set (map fst (fold counter_add xs al)) = set (map fst al) \<union> set xs
   \<and> (\<forall>(w, f) \<in> set (fold counter_add xs al). 0 < f)"
proof (induction xs arbitrary: al)
  case Nil
  then show ?case by simp
next
  case (Cons x xs)
  have d: "distinct (map fst (counter_add x al))"
    using Cons.prems(1) by (auto simp: counter_add_keys)
  have p: "\<forall>(w, f) \<in> set (counter_add x al). 0 < f"
    using Cons.prems(2) by (rule counter_add_pos)
  have s: "set (map fst (counter_add x al)) = set (map fst al) \<union> {x}"
    by (auto simp: counter_add_keys)
  from Cons.IH [OF d p] s show ?case by auto
qed

lemma Counter_props:
  "distinct (map fst (Counter xs)) \<and> set (map fst (Counter xs)) = set xs
   \<and> (\<forall>(w, f) \<in> set (Counter xs). 0 < f)"
  using fold_counter_add [of "[]" xs] by (simp add: Counter_def)

lemma score_items_ok:
  "0 < n \<Longrightarrow> \<forall>(w, f) \<in> set items. 0 < f \<Longrightarrow>
   \<exists>scores. score_items tfidf n items = Inr scores \<and> map fst scores = map fst items"
proof (induction items)
  case Nil
  then show ?case by simp
next
  case (Cons it items)
  obtain w f where it: "it = (w, f)" by (cases it)
  from Cons.prems it have f: "0 < f" by simp
  from Cons obtain scores where
    "score_items tfidf n items = Inr scores" "map fst scores = map fst items"
    by auto
  with f Cons.prems(1) show ?case by (simp add: it py_truediv_def)
qed

lemma sorted_reverse_keys:
  "mset (map fst (sorted_reverse key xs)) = mset (map fst xs)"
  by (simp add: sorted_reverse_def)

lemma extract_key_concepts_props:
  "\<exists>terms. extract_key_concepts tfidf text = Inr terms
     \<and> length terms \<le> 10 \<and> distinct terms
     \<and> set terms \<subseteq> {t \<in> set (findall_words (clean_text (lower text))).
           t \<notin> set stop_words \<and> 2 < length t}"
proof -
  define words where "words = findall_words (clean_text (lower text))"
  define mw where "mw = filter (\<lambda>word. word \<notin> set stop_words \<and> length word > 2) words"
  have cp: "distinct (map fst (Counter mw))" "set (map fst (Counter mw)) = set mw"
    "\<forall>(w, f) \<in> set (Counter mw). 0 < f"
    using Counter_props [of mw] by simp_all
  have "\<exists>scores. score_items tfidf (length mw) (Counter mw) = Inr scores
          \<and> map fst scores = map fst (Counter mw)"
  proof (cases "mw = []")
    case True
    then show ?thesis by (simp add: Counter_def)
  next
    case False
    then have "0 < length mw" by simp
    then show ?thesis using cp(3) by (rule score_items_ok)
  qed
  then obtain scores where sc: "score_items tfidf (length mw) (Counter mw) = Inr scores"
    and keys: "map fst scores = map fst (Counter mw)" by blast
  define terms where "terms = map fst (take 10 (sorted_reverse snd scores))"
  have res: "extract_key_concepts tfidf text = Inr terms"
    by (simp add: extract_key_concepts_def Let_def sc terms_def flip: words_def mw_def)
  have ms: "mset (map fst (sorted_reverse snd scores)) = mset (map fst (Counter mw))"
    using sorted_reverse_keys [of snd scores] keys by metis
  have dall: "distinct (map fst (sorted_reverse snd scores))"
    using ms cp(1) by (metis mset_eq_imp_distinct_iff)
  have sall: "set (map fst (sorted_reverse snd scores)) = set mw"
    using ms cp(2) by (metis mset_eq_setD)
  have t: "terms = take 10 (map fst (sorted_reverse snd scores))"
    by (simp add: terms_def take_map)
  have "length terms \<le> 10" by (simp add: t)
  moreover have "distinct terms" using dall by (simp add: t)
  moreover have "set terms \<subseteq> set mw" using sall set_take_subset t by metis
  moreover have "set mw \<subseteq> {t \<in> set words. t \<notin> set stop_words \<and> 2 < length t}"
    by (auto simp: mw_def)
  ultimately show ?thesis using res unfolding words_def by blast
qed

text \<open>
  Claim C9. For every input text, and whatever the floating-point scores are,
  \<^verbatim>\<open>extract_key_concepts\<close> returns a list of at most 10 terms without duplicates, and
  every term of it is a match of \<^verbatim>\<open>\b[a-zA-Z]{2,}\b\<close> in the cleaned, lowercased text,
  made of letters only and of length at least 2, that is not a stop word.
\<close>

theorem extract_key_concepts_terms:
  "\<exists>terms. extract_key_concepts tfidf text = Inr terms
     \<and> length terms \<le> 10 \<and> distinct terms
     \<and> (\<forall>t \<in> set terms. t \<in> set (findall_words (clean_text (lower text)))
           \<and> list_all is_ascii_alpha t \<and> 2 \<le> length t \<and> t \<notin> set stop_words)"
proof -
  obtain terms where r: "extract_key_concepts tfidf text = Inr terms"
    "length terms \<le> 10" "distinct terms"
    and sub: "set terms \<subseteq> {t \<in> set (findall_words (clean_text (lower text))).
           t \<notin> set stop_words \<and> 2 < length t}"
    using extract_key_concepts_props by blast
  have "\<forall>t \<in> set (findall_words (clean_text (lower text))).
          list_all is_ascii_alpha t \<and> 2 \<le> length t"
    by (simp add: findall_words_def)
  with sub have "\<forall>t \<in> set terms. t \<in> set (findall_words (clean_text (lower text)))
           \<and> list_all is_ascii_alpha t \<and> 2 \<le> length t \<and> t \<notin> set stop_words"
    by blast
  with r show ?thesis by blast
qed

lemma cells_concepts:
  "extract_key_concepts product_score ''Cells divide. The cells grow.''
     = Inr [''cells'', ''divide'', ''grow'']"
  by code_simp

theorem extract_key_concepts_terms_witness:
  "extract_key_concepts product_score ''Cells divide. The cells grow.''
     = Inr [''cells'', ''divide'', ''grow'']
   \<and> ''cells'' \<in> set (findall_words (clean_text (lower ''Cells divide. The cells grow.'')))
   \<and> list_all is_ascii_alpha ''cells'' \<and> 2 \<le> length ''cells''
   \<and> ''cells'' \<notin> set stop_words"
  using extract_key_concepts_terms [of product_score "''Cells divide. The cells grow.''"]
  by (simp add: cells_concepts)

section \<open>Properties of the random draws\<close>

text \<open>A draw stays below its bound, a shuffle permutes its list, and neither calls the model.\<close>

lemma randbelow_props:
  "0 < n \<Longrightarrow> fst (randbelow n w) < n"
  "calls (snd (randbelow n w)) = calls w"
  by (auto simp: randbelow_def split: list.splits)

lemma shuffle_from_props:
  "i < length x \<Longrightarrow>
   mset (fst (shuffle_from i x w)) = mset x \<and> calls (snd (shuffle_from i x w)) = calls w"
proof (induction i arbitrary: x w)
  case 0
  then show ?case by simp
next
  case (Suc i)
  obtain j w' where r: "randbelow (Suc i + 1) w = (j, w')" by (cases "randbelow (Suc i + 1) w")
  have "j < Suc i + 1" using randbelow_props(1) [of "Suc i + 1" w] r by simp
  with Suc.prems have j: "j < length x" by simp
  have c: "calls w' = calls w" using randbelow_props(2) [of "Suc i + 1" w] r by simp
  let ?x' = "x[Suc i := x ! j, j := x ! Suc i]"
  have m: "mset ?x' = mset x" using Suc.prems j by (simp add: mset_swap)
  have "i < length ?x'" using Suc.prems by simp
  from Suc.IH [OF this, of w'] m c r show ?case by simp
qed

lemma shuffle_props:
  "mset (fst (shuffle x w)) = mset x \<and> calls (snd (shuffle x w)) = calls w"
proof (cases x)
  case Nil
  then show ?thesis by (simp add: shuffle_def)
next
  case (Cons a list)
  then have "length x - 1 < length x" by simp
  then show ?thesis unfolding shuffle_def by (rule shuffle_from_props)
qed

lemma shuffle_cases:
  obtains ys w' where "shuffle x w = (ys, w')" "mset ys = mset x" "calls w' = calls w"
  using shuffle_props [of x w] by (cases "shuffle x w") auto

section \<open>Properties of the fallback generators\<close>

lemma mock_question_ok:
  "\<exists>q w'. mock_question key_terms i w = (Inr q, w') \<and> calls w' = calls w
     \<and> options_invariant q \<and> q_difficulty q = Some ''medium''
     \<and> q_bloom_level q = Some ''understand''"
proof -
  obtain t qt where h:
    "(if key_terms \<noteq> []
      then and_then (py_mod i (length key_terms))
             (\<lambda>k. and_then (py_index key_terms k)
             (\<lambda>term. Inr (term, ''What is the significance of '' @ apostrophe @ term
                                 @ apostrophe @ '' in the given context?'')))
      else Inr (''main topic'',
                ''What is the main topic discussed in question '' @ str_of_nat (i + 1)
                @ ''?'')) = Inr (t, qt)"
    by (cases "key_terms = []") (auto simp: and_then_def py_mod_def py_index_def)
  let ?opts = "[''Key concept related to '' @ t, ''Alternative concept A'',
                ''Alternative concept B'', ''Alternative concept C'']"
  obtain ys w' where s: "shuffle ?opts w = (ys, w')" "mset ys = mset ?opts" "calls w' = calls w"
    by (rule shuffle_cases)
  have d: "distinct ?opts" by simp
  from s(2) d have "distinct ys" by (metis mset_eq_imp_distinct_iff)
  moreover from s(2) have "set ys = set ?opts" by (metis mset_eq_setD)
  moreover from s(2) have "length ys = 4" using mset_eq_length by fastforce
  ultimately have "options_invariant \<lparr>q_id = None, q_question = Some qt,
               q_options = Some ys, q_correct_answer = Some (''Key concept related to '' @ t),
               q_explanation = Some ''Based on the provided text, the correct answer relates to the main concepts discussed.'', q_difficulty = Some ''medium'',
               q_bloom_level = Some ''understand'', q_category = None, q_subject_area = None,
               q_key_concept = None, q_created_at = None\<rparr>"
    by (simp add: options_invariant_def)
  then show ?thesis
    unfolding mock_question_def h using s(1,3) by (simp add: Let_def)
qed

lemma mock_loop_ok:
  "\<exists>qs w'. mock_loop key_terms idx acc w = (Inr (acc @ qs), w') \<and> length qs = length idx
     \<and> calls w' = calls w
     \<and> (\<forall>q \<in> set qs. options_invariant q \<and> q_difficulty q = Some ''medium''
           \<and> q_bloom_level q = Some ''understand'')"
proof (induction idx arbitrary: acc w)
  case Nil
  then show ?case by simp
next
  case (Cons i rest)
  obtain q w1 where q: "mock_question key_terms i w = (Inr q, w1)" "calls w1 = calls w"
    "options_invariant q" "q_difficulty q = Some ''medium''"
    "q_bloom_level q = Some ''understand''"
    using mock_question_ok by blast
  obtain qs w' where r: "mock_loop key_terms rest (acc @ [q]) w1 = (Inr ((acc @ [q]) @ qs), w')"
    "length qs = length rest" "calls w' = calls w1"
    "\<forall>q \<in> set qs. options_invariant q \<and> q_difficulty q = Some ''medium''
           \<and> q_bloom_level q = Some ''understand''"
    using Cons.IH by blast
  show ?case
    apply (rule exI [of _ "q # qs"])
    apply (rule exI [of _ w'])
    using q r by simp
qed

lemma gemini_term_or_ok: "\<exists>t. gemini_term_or key_terms i dflt = Inr t"
  by (simp add: gemini_term_or_def py_index_def)

lemma choice_ok:
  "seq \<noteq> [] \<Longrightarrow> \<exists>x w'. choice seq w = (Inr x, w') \<and> calls w' = calls w"
proof -
  assume ne: "seq \<noteq> []"
  obtain k w' where r: "randbelow (length seq) w = (k, w')" by (cases "randbelow (length seq) w")
  from ne have "k < length seq" using randbelow_props(1) [of "length seq" w] r by simp
  moreover have "calls w' = calls w" using randbelow_props(2) [of "length seq" w] r by simp
  ultimately show ?thesis using ne r by (simp add: choice_def py_index_def)
qed

lemma gemini_mock_question_ok:
  "\<exists>q w'. gemini_mock_question key_terms i w = (Inr q, w') \<and> calls w' = calls w
     \<and> options_invariant q \<and> q_difficulty q = Some ''medium''
     \<and> q_bloom_level q = Some ''understand''"
proof -
  obtain qt w' where h:
    "(if key_terms \<noteq> []
      then (case choice key_terms w of
              (Inl e, w) \<Rightarrow> (Inl e, w)
            | (Inr term, w) \<Rightarrow>
                (Inr (''What is the significance of '' @ term @ '' in the given context?''), w))
      else (Inr ''Based on the text, which statement is most accurate?'', w)) = (Inr qt, w')"
    and c: "calls w' = calls w"
  proof (cases "key_terms = []")
    case True
    then show ?thesis using that by simp
  next
    case False
    then obtain x w' where "choice key_terms w = (Inr x, w')" "calls w' = calls w"
      using choice_ok by blast
    then show ?thesis using that False by simp
  qed
  obtain t0 t1 t2 t3 where t:
    "gemini_term_or key_terms 0 ''concept'' = Inr t0"
    "gemini_term_or key_terms (Suc 0) ''topic'' = Inr t1"
    "gemini_term_or key_terms 2 ''subject'' = Inr t2"
    "gemini_term_or key_terms 3 ''theme'' = Inr t3"
    using gemini_term_or_ok by metis
  show ?thesis
    unfolding gemini_mock_question_def h using c
    by (simp add: t and_then_def py_index_def options_invariant_def)
qed

lemma gemini_mock_loop_ok:
  "\<exists>qs w'. gemini_mock_loop key_terms idx acc w = (Inr (acc @ qs), w') \<and> length qs = length idx
     \<and> calls w' = calls w
     \<and> (\<forall>q \<in> set qs. options_invariant q \<and> q_difficulty q = Some ''medium''
           \<and> q_bloom_level q = Some ''understand'')"
proof (induction idx arbitrary: acc w)
  case Nil
  then show ?case by simp
next
  case (Cons i rest)
  obtain q w1 where q: "gemini_mock_question key_terms i w = (Inr q, w1)" "calls w1 = calls w"
    "options_invariant q" "q_difficulty q = Some ''medium''"
    "q_bloom_level q = Some ''understand''"
    using gemini_mock_question_ok by blast
  obtain qs w' where r:
    "gemini_mock_loop key_terms rest (acc @ [q]) w1 = (Inr ((acc @ [q]) @ qs), w')"
    "length qs = length rest" "calls w' = calls w1"
    "\<forall>q \<in> set qs. options_invariant q \<and> q_difficulty q = Some ''medium''
           \<and> q_bloom_level q = Some ''understand''"
    using Cons.IH by blast
  show ?case
    apply (rule exI [of _ "q # qs"])
    apply (rule exI [of _ w'])
    using q r by simp
qed

lemma generate_mock_questions_ok:
  "\<exists>qs w'. generate_mock_questions text n w = (Inr qs, w') \<and> length qs = nat n
     \<and> calls w' = calls w
     \<and> (\<forall>q \<in> set qs. options_invariant q \<and> q_difficulty q = Some ''medium''
           \<and> q_bloom_level q = Some ''understand'')"
  using mock_loop_ok [of "mock_key_terms text" "py_range n" "[]" w]
  by (simp add: generate_mock_questions_def py_range_def)

lemma gemini_generate_mock_questions_ok:
  "\<exists>qs w'. gemini_generate_mock_questions text n w = (Inr qs, w') \<and> length qs = nat n
     \<and> calls w' = calls w
     \<and> (\<forall>q \<in> set qs. options_invariant q \<and> q_difficulty q = Some ''medium''
           \<and> q_bloom_level q = Some ''understand'')"
  using gemini_mock_loop_ok [of "mock_key_terms text" "py_range n" "[]" w]
  by (simp add: gemini_generate_mock_questions_def py_range_def)

lemma generate_mcq_unloaded:
  "\<not> model_loaded self \<Longrightarrow>
   generate_mcq self tfidf text n difficulty w = generate_mock_questions text n w"
  by (simp add: generate_mcq_def)

lemma gemini_generate_mcq_unloaded:
  "\<not> g_model_loaded gself \<Longrightarrow>
   gemini_generate_mcq gself tfidf text n difficulty w = gemini_generate_mock_questions text n w"
  using gemini_generate_mock_questions_ok [of "text" n w]
  by (auto simp add: gemini_generate_mcq_def)

text \<open>
  Claim C2. When the generation capability is unavailable (\<^verbatim>\<open>model_loaded\<close> is false),
  \<^verbatim>\<open>generate_mcq\<close> of \<^verbatim>\<open>generator.py\<close> and of \<^verbatim>\<open>gemini_generator.py\<close>, for every text
  (the empty one included), every difficulty and every number of questions that is at
  least 1, return without raising exactly that number of question dictionaries, make no
  call to the external model (the count of calls is unchanged), and every dictionary
  returned has four pairwise distinct options with the correct answer among them.
\<close>

theorem fallback_generation:
  assumes "1 \<le> n" and "\<not> model_loaded self" and "\<not> g_model_loaded gself"
  shows "(\<exists>qs w'. generate_mcq self tfidf text n difficulty w = (Inr qs, w')
            \<and> int (length qs) = n \<and> calls w' = calls w
            \<and> (\<forall>q \<in> set qs. options_invariant q))
       \<and> (\<exists>qs w'. gemini_generate_mcq gself tfidf text n difficulty w = (Inr qs, w')
            \<and> int (length qs) = n \<and> calls w' = calls w
            \<and> (\<forall>q \<in> set qs. options_invariant q))"
proof -
  from assms(1) have n: "int (nat n) = n" by simp
  obtain qs w' where a: "generate_mock_questions text n w = (Inr qs, w')" "length qs = nat n"
    "calls w' = calls w" "\<forall>q \<in> set qs. options_invariant q"
    using generate_mock_questions_ok [of "text" n w] by blast
  obtain gqs gw' where b: "gemini_generate_mock_questions text n w = (Inr gqs, gw')"
    "length gqs = nat n" "calls gw' = calls w" "\<forall>q \<in> set gqs. options_invariant q"
    using gemini_generate_mock_questions_ok [of "text" n w] by blast
  show ?thesis
    using a b n assms(2,3)
    by (simp add: generate_mcq_unloaded gemini_generate_mcq_unloaded)
qed

theorem fallback_generation_witness:
  "(1::int) \<le> 5 \<and> \<not> model_loaded unloaded_generator \<and> \<not> g_model_loaded unloaded_gemini
   \<and> (\<exists>qs w'. generate_mcq unloaded_generator product_score mitochondria_text 5 ''medium''
                   start_world = (Inr qs, w')
          \<and> int (length qs) = 5 \<and> calls w' = calls start_world
          \<and> list_all options_invariant qs)
   \<and> (\<exists>qs w'. gemini_generate_mcq unloaded_gemini product_score mitochondria_text 5 ''medium''
                   start_world = (Inr qs, w')
          \<and> int (length qs) = 5 \<and> calls w' = calls start_world
          \<and> list_all options_invariant qs)"
proof -
  have h1: "(1::int) \<le> 5" by simp
  have h2: "\<not> model_loaded unloaded_generator" by (simp add: unloaded_generator_def)
  have h3: "\<not> g_model_loaded unloaded_gemini" by (simp add: unloaded_gemini_def)
  from fallback_generation [OF h1 h2 h3, of product_score mitochondria_text "''medium''"
      start_world] h1 h2 h3
  show ?thesis by (simp add: list_all_iff)
qed

text \<open>
  Claim C10. On the fallback path (\<^verbatim>\<open>model_loaded\<close> is false) the difficulty passed to
  \<^verbatim>\<open>generate_mcq\<close> has no effect: two calls that differ in the difficulty only return the
  same result, in \<^verbatim>\<open>generator.py\<close> and in \<^verbatim>\<open>gemini_generator.py\<close>, and every dictionary
  returned has the difficulty \<^verbatim>\<open>medium\<close> and the Bloom level \<^verbatim>\<open>understand\<close>. (The
  fallback questions do not depend on the difficulty at all: \<^verbatim>\<open>_generate_mock_questions\<close>
  takes the text and the number of questions only.)
\<close>

theorem fallback_ignores_difficulty:
  assumes "\<not> model_loaded self" and "\<not> g_model_loaded gself"
  shows "generate_mcq self tfidf text n difficulty w = generate_mcq self tfidf text n difficulty' w
       \<and> gemini_generate_mcq gself tfidf text n difficulty w
           = gemini_generate_mcq gself tfidf text n difficulty' w
       \<and> (\<exists>qs w'. generate_mcq self tfidf text n difficulty w = (Inr qs, w')
            \<and> (\<forall>q \<in> set qs. q_difficulty q = Some ''medium''
                  \<and> q_bloom_level q = Some ''understand''))
       \<and> (\<exists>qs w'. gemini_generate_mcq gself tfidf text n difficulty w = (Inr qs, w')
            \<and> (\<forall>q \<in> set qs. q_difficulty q = Some ''medium''
                  \<and> q_bloom_level q = Some ''understand''))"
proof -
  obtain qs w' where a: "generate_mock_questions text n w = (Inr qs, w')"
    "\<forall>q \<in> set qs. q_difficulty q = Some ''medium'' \<and> q_bloom_level q = Some ''understand''"
    using generate_mock_questions_ok [of "text" n w] by blast
  obtain gqs gw' where b: "gemini_generate_mock_questions text n w = (Inr gqs, gw')"
    "\<forall>q \<in> set gqs. q_difficulty q = Some ''medium'' \<and> q_bloom_level q = Some ''understand''"
    using gemini_generate_mock_questions_ok [of "text" n w] by blast
  show ?thesis
    using a b assms
    by (simp add: generate_mcq_unloaded gemini_generate_mcq_unloaded)
qed

theorem fallback_ignores_difficulty_witness:
  "\<not> model_loaded unloaded_generator \<and> \<not> g_model_loaded unloaded_gemini
   \<and> generate_mcq unloaded_generator product_score mitochondria_text 2 ''easy'' start_world
       = generate_mcq unloaded_generator product_score mitochondria_text 2 ''hard'' start_world
   \<and> gemini_generate_mcq unloaded_gemini product_score mitochondria_text 2 ''easy'' start_world
       = gemini_generate_mcq unloaded_gemini product_score mitochondria_text 2 ''hard'' start_world
   \<and> (\<exists>qs w'. generate_mcq unloaded_generator product_score mitochondria_text 2 ''easy''
                   start_world = (Inr qs, w')
          \<and> list_all (\<lambda>q. q_difficulty q = Some ''medium''
                \<and> q_bloom_level q = Some ''understand'') qs)
   \<and> (\<exists>qs w'. gemini_generate_mcq unloaded_gemini product_score mitochondria_text 2 ''easy''
                   start_world = (Inr qs, w')
          \<and> list_all (\<lambda>q. q_difficulty q = Some ''medium''
                \<and> q_bloom_level q = Some ''understand'') qs)"
proof -
  have h1: "\<not> model_loaded unloaded_generator" by (simp add: unloaded_generator_def)
  have h2: "\<not> g_model_loaded unloaded_gemini" by (simp add: unloaded_gemini_def)
  from fallback_ignores_difficulty [OF h1 h2, of product_score mitochondria_text 2 "''easy''"
      start_world "''hard''"] h1 h2
  show ?thesis unfolding list_all_iff by blast
qed

section \<open>Properties of the generators with a model\<close>

text \<open>
  Neither \<^verbatim>\<open>generate_mcq\<close> raises, whatever the text, the number of questions, the
  difficulty and the answers of the model are: the divisions and the indexings are all
  guarded. When the call of the Gemini model raises, \<^verbatim>\<open>generate_mcq\<close> of
  \<^verbatim>\<open>gemini_generator.py\<close> returns the fallback questions, after that one call.
\<close>

lemma get_bloom_level_for_difficulty_ok:
  "\<exists>level. get_bloom_level_for_difficulty difficulty = Inr level"
  by (simp add: get_bloom_level_for_difficulty_def ENHANCED_QUESTION_PROMPTS_def py_index_def
      Let_def)

lemma analyze_text_complexity_ok:
  "\<exists>analysis. analyze_text_complexity tfidf text = Inr analysis"
proof -
  obtain key_concepts where k: "extract_key_concepts tfidf text = Inr key_concepts"
    using extract_key_concepts_props by blast
  show ?thesis
    by (simp add: analyze_text_complexity_def Let_def and_then_def py_truediv_def k)
qed

lemma gemini_api_error_fallback:
  assumes "g_model_loaded self" and "g_model self (calls w) = ApiError"
  shows "gemini_generate_mcq self tfidf text n difficulty w
           = gemini_generate_mock_questions text n (w\<lparr>calls := calls w + 1\<rparr>)"
proof -
  obtain analysis where a: "analyze_text_complexity tfidf text = Inr analysis"
    using analyze_text_complexity_ok by blast
  obtain level where l: "get_bloom_level_for_difficulty (lower difficulty) = Inr level"
    using get_bloom_level_for_difficulty_ok by blast
  show ?thesis
    using assms
    by (simp add: gemini_generate_mcq_def gemini_generate_questions_with_gemini_def Let_def a l)
qed

lemma preprocess_text_not_Nil: "preprocess_text text \<noteq> []"
  by (simp add: preprocess_text_def Let_def)

lemma chunk_loop_returns:
  "\<exists>questions' w'.
     chunk_loop self tfidf difficulty subject_area qpc n chunks (questions, r, w)
       = (Inr questions', w')"
proof (induction chunks arbitrary: questions r w)
  case Nil
  then show ?case by simp
next
  case (Cons ic rest)
  obtain chunk_index chunk where ic: "ic = (chunk_index, chunk)" by (cases ic)
  obtain concepts where k: "extract_key_concepts tfidf chunk = Inr concepts"
    using extract_key_concepts_props by blast
  show ?case
  proof (cases "r \<le> 0")
    case True
    then show ?thesis by (simp add: ic)
  next
    case False
    define cq where "cq = (if int chunk_index = int n - 1 then r else min qpc r)"
    obtain qs1 r1 w1 where ql:
      "question_loop self chunk concepts difficulty subject_area (py_range cq) (questions, r, w)
         = (qs1, r1, w1)"
      by (metis prod_cases3)
    from Cons.IH [of qs1 r1 w1] False show ?thesis
      by (simp add: ic k Let_def ql flip: cq_def)
  qed
qed

lemma group_questions_by_topic_ok:
  "\<exists>groups. group_questions_by_topic tfidf questions text = Inr groups"
proof -
  obtain key_concepts where k: "extract_key_concepts tfidf text = Inr key_concepts"
    using extract_key_concepts_props by blast
  show ?thesis by (simp add: group_questions_by_topic_def and_then_def k Let_def)
qed

lemma generate_mcq_returns:
  "\<exists>questions w'. generate_mcq self tfidf text n difficulty w = (Inr questions, w')"
proof (cases "model_loaded self")
  case False
  then show ?thesis
    using generate_mock_questions_ok [of "text" n w] by (auto simp: generate_mcq_def)
next
  case True
  obtain analysis where a: "analyze_text_complexity tfidf text = Inr analysis"
    using analyze_text_complexity_ok by blast
  have d: "py_floordiv n (int (length (preprocess_text text)))
             = Inr (n div int (length (preprocess_text text)))"
    using preprocess_text_not_Nil [of "text"] by (simp add: py_floordiv_def)
  obtain questions w' where c:
    "chunk_loop self tfidf difficulty (detect_subject_area text)
       (max 1 (n div int (length (preprocess_text text)))) (length (preprocess_text text))
       (enumerate 0 (preprocess_text text)) ([], n, w) = (Inr questions, w')"
    using chunk_loop_returns by blast
  obtain groups where g: "group_questions_by_topic tfidf questions text = Inr groups"
    using group_questions_by_topic_ok by blast
  show ?thesis
    using True by (simp add: generate_mcq_def a d c g Let_def)
qed

lemma gemini_generate_mcq_returns:
  "\<exists>questions w'. gemini_generate_mcq self tfidf text n difficulty w = (Inr questions, w')"
proof -
  have m: "\<exists>questions w'. gemini_generate_mock_questions text n w0 = (Inr questions, w')"
    for w0 using gemini_generate_mock_questions_ok [of "text" n w0] by blast
  obtain res w1 where r:
    "(if \<not> g_model_loaded self then gemini_generate_mock_questions text n w
      else (let difficulty = lower difficulty;
                processed_text = preprocess_text text
            in case analyze_text_complexity tfidf text of
                 Inl e \<Rightarrow> (Inl e, w)
               | Inr complexity \<Rightarrow>
                  (let subject_area = detect_subject_area text
                   in gemini_generate_questions_with_gemini self processed_text
                        n difficulty subject_area w))) = (res, w1)"
    by (metis surj_pair)
  show ?thesis
    unfolding gemini_generate_mcq_def r using m [of w1] by (cases res) auto
qed

text \<open>
  Whatever the model answers, every dictionary that either generator returns has four
  options and its correct answer among them: \<^verbatim>\<open>generator.py\<close> builds the options from the
  correct answer and exactly three distractors, and \<^verbatim>\<open>gemini_generator.py\<close> rejects every
  parsed dictionary that is not of this shape.
\<close>

lemma options_invariant_shape: "options_invariant q \<Longrightarrow> options_shape q"
  by (auto simp: options_invariant_def options_shape_def split: option.splits)

lemma generate_text_cases:
  obtains t where "generate_text self prompt max_length w = (t, w\<lparr>calls := calls w + 1\<rparr>)"
  by (cases "model self (calls w) prompt max_length") (auto simp: generate_text_def Let_def)

lemma distractor_loop_length:
  "length (fst (distractor_loop self p c idx ds w)) = length ds + length idx"
proof (induction idx arbitrary: ds w)
  case Nil
  then show ?case by simp
next
  case (Cons i rest)
  obtain t where t: "generate_text self p 50 w = (t, w\<lparr>calls := calls w + 1\<rparr>)"
    by (rule generate_text_cases)
  show ?case by (simp add: t Let_def Cons.IH)
qed

lemma pad_distractors_full: "3 \<le> length ds \<Longrightarrow> pad_distractors ds = ds"
  by (simp add: pad_distractors.simps)

lemma generate_enhanced_distractors_length:
  "length (fst (generate_enhanced_distractors self c context difficulty subject_area w)) = 3"
proof -
  have "length (fst (distractor_loop self p c [0, 1, 2] [] w)) = 3" for p
    using distractor_loop_length [of self p c "[0, 1, 2]" "[]" w] by (simp del: distractor_loop.simps)
  then show ?thesis
    by (simp add: generate_enhanced_distractors_def Let_def split_def pad_distractors_full
        del: distractor_loop.simps)
qed

lemma shuffle_set: "set (fst (shuffle x w)) = set x"
  using shuffle_props [of x w] by (metis mset_eq_setD)

lemma shuffle_length: "length (fst (shuffle x w)) = length x"
  using shuffle_props [of x w] by (metis mset_eq_length)

lemma question_slot_shape:
  assumes "question_slot self chunk concepts q_index difficulty subject_area w = (Inr q, w')"
  shows "options_shape q"
  using assms
  by (auto simp: question_slot_def Let_def split_def options_shape_def shuffle_set
      shuffle_length generate_enhanced_distractors_length split: sum.splits)

lemma question_loop_shape:
  assumes "\<forall>q \<in> set questions. options_shape q"
    and "question_loop self chunk concepts difficulty subject_area idx (questions, r, w)
           = (questions', r', w')"
  shows "\<forall>q \<in> set questions'. options_shape q"
  using assms
proof (induction idx arbitrary: questions r w)
  case Nil
  then show ?case by simp
next
  case (Cons i rest)
  obtain res w1 where sl:
    "question_slot self chunk concepts i difficulty subject_area w = (res, w1)"
    by (cases "question_slot self chunk concepts i difficulty subject_area w")
  show ?case
  proof (cases res)
    case (Inl e)
    with Cons.prems(2) sl have
      "question_loop self chunk concepts difficulty subject_area rest (questions, r, w1)
         = (questions', r', w')" by simp
    with Cons.IH Cons.prems(1) show ?thesis by blast
  next
    case (Inr q)
    with sl have "options_shape q" using question_slot_shape by blast
    with Cons.prems(1) have a: "\<forall>x \<in> set (questions @ [q]). options_shape x" by simp
    from Cons.prems(2) sl Inr have
      "question_loop self chunk concepts difficulty subject_area rest (questions @ [q], r - 1, w1)
         = (questions', r', w')" by simp
    with Cons.IH a show ?thesis by blast
  qed
qed

lemma chunk_loop_shape:
  assumes "\<forall>q \<in> set questions. options_shape q"
    and "chunk_loop self tfidf difficulty subject_area qpc n chunks (questions, r, w)
           = (Inr questions', w')"
  shows "\<forall>q \<in> set questions'. options_shape q"
  using assms
proof (induction chunks arbitrary: questions r w)
  case Nil
  then show ?case by simp
next
  case (Cons ic rest)
  obtain chunk_index chunk where ic: "ic = (chunk_index, chunk)" by (cases ic)
  show ?case
  proof (cases "r \<le> 0")
    case True
    with Cons.prems ic show ?thesis by simp
  next
    case False
    define cq where "cq = (if int chunk_index = int n - 1 then r else min qpc r)"
    from Cons.prems(2) ic False obtain concepts where
      k: "extract_key_concepts tfidf chunk = Inr concepts"
      by (auto simp: Let_def split: sum.splits)
    obtain qs1 r1 w1 where ql:
      "question_loop self chunk concepts difficulty subject_area (py_range cq) (questions, r, w)
         = (qs1, r1, w1)"
      by (metis prod_cases3)
    have a: "\<forall>q \<in> set qs1. options_shape q"
      using question_loop_shape [OF Cons.prems(1) ql] .
    from Cons.prems(2) ic False k ql have
      "chunk_loop self tfidf difficulty subject_area qpc n rest (qs1, r1, w1) = (Inr questions', w')"
      by (simp add: Let_def cq_def)
    with Cons.IH a show ?thesis by blast
  qed
qed

lemma generate_mcq_shape:
  assumes "generate_mcq self tfidf text n difficulty w = (Inr questions, w')"
  shows "\<forall>q \<in> set questions. options_shape q"
proof (cases "model_loaded self")
  case False
  with assms have "generate_mock_questions text n w = (Inr questions, w')"
    by (simp add: generate_mcq_def)
  then show ?thesis
    using generate_mock_questions_ok [of "text" n w] options_invariant_shape by auto
next
  case True
  from assms True obtain qpc w1 where
    "chunk_loop self tfidf difficulty (detect_subject_area text) qpc
       (length (preprocess_text text)) (enumerate 0 (preprocess_text text)) ([], n, w)
       = (Inr questions, w1)"
    by (auto simp: generate_mcq_def Let_def split: sum.splits prod.splits if_splits)
  then show ?thesis using chunk_loop_shape [of "[]"] by fastforce
qed





text \<open>
  Claim C1 holds for the membership of the correct answer and for the number of options
  (lemmas \<open>generate_mcq_shape\<close> and \<open>gemini_generate_mcq_shape\<close>), and on the fallback
  path for the distinctness too (lemmas \<open>generate_mock_questions_ok\<close> and
  \<open>gemini_generate_mock_questions_ok\<close>). On the model path of \<^verbatim>\<open>generator.py\<close> the options
  need not be pairwise distinct: \<^verbatim>\<open>_generate_enhanced_distractors\<close> checks a generated
  distractor against the correct answer and the distractors so far, but not the fallback
  string it puts in its place. With a model that answers "Alternative option 1" to every
  prompt, the correct answer is "Alternative option 1", the first distractor is rejected
  because it equals the correct answer, and its fallback is "Alternative option 1" again:
  the question returned has that option twice.
\<close>

theorem generated_options_duplicate:
  "map_sum id (map q_options)
     (fst (generate_mcq echo_generator product_score ''Plants make food.'' 1 ''medium'' start_world))
   = Inr [Some [''Alternative option 1'', ''Alternative option 2'', ''Alternative option 3'',
                ''Alternative option 1'']]"
  by code_simp

text \<open>
  The cleanup of a question text that holds neither "option" nor "answer:", in any case.
\<close>

lemma startswith_iff: "startswith s p \<longleftrightarrow> (\<exists>b. s = p @ b)"
  by (induction s p rule: startswith.induct) auto

lemma contains_iff: "contains s p \<longleftrightarrow> (\<exists>a b. s = a @ p @ b)"
proof (induction s)
  case Nil
  then show ?case by simp
next
  case (Cons c cs)
  show ?case
  proof
    assume "contains (c # cs) p"
    then consider "startswith (c # cs) p" | "contains cs p" by auto
    then show "\<exists>a b. c # cs = a @ p @ b"
    proof cases
      case 1
      then obtain b where "c # cs = [] @ p @ b" by (auto simp: startswith_iff)
      then show ?thesis by blast
    next
      case 2
      with Cons obtain a b where "cs = a @ p @ b" by blast
      then have "c # cs = (c # a) @ p @ b" by simp
      then show ?thesis by blast
    qed
  next
    assume "\<exists>a b. c # cs = a @ p @ b"
    then obtain a b where e: "c # cs = a @ p @ b" by blast
    show "contains (c # cs) p"
    proof (cases a)
      case Nil
      with e have "startswith (c # cs) p" by (auto simp: startswith_iff)
      then show ?thesis by simp
    next
      case (Cons x a')
      with e have "cs = a' @ p @ b" by simp
      with Cons.IH have "contains cs p" by blast
      then show ?thesis by simp
    qed
  qed
qed

lemma contains_infix:
  "contains (lower u) p \<Longrightarrow> q = x @ u @ y \<Longrightarrow> contains (lower q) p"
proof -
  assume "contains (lower u) p" and q: "q = x @ u @ y"
  then obtain a b where "lower u = a @ p @ b" by (auto simp: contains_iff)
  then have "lower q = (lower x @ a) @ p @ (b @ lower y)" by (simp add: q lower_def)
  then show ?thesis unfolding contains_iff by blast
qed

lemma strip_infix: "\<exists>x y. s = x @ strip s @ y"
proof -
  let ?d = "dropWhile isspace s"
  have "rev (rev ?d) = rev (takeWhile isspace (rev ?d) @ dropWhile isspace (rev ?d))"
    by (simp only: takeWhile_dropWhile_id)
  then have "?d = strip s @ rev (takeWhile isspace (rev ?d))"
    by (simp only: rev_append rev_rev_ident strip_def)
  moreover have "s = takeWhile isspace s @ ?d" by simp
  ultimately have "s = takeWhile isspace s @ strip s @ rev (takeWhile isspace (rev ?d))"
    by simp
  then show ?thesis by blast
qed

lemma cut_at_none: "(\<And>k. \<not> m (drop k s)) \<Longrightarrow> cut_at m s = s"
proof (induction s)
  case Nil
  then show ?case by simp
next
  case (Cons c cs)
  have "\<not> m (c # cs)" using Cons.prems [of 0] by simp
  moreover have "\<not> m (drop k cs)" for k using Cons.prems [of "Suc k"] by simp
  ultimately show ?case using Cons.IH by simp
qed

lemma not_isspace_question_mark: "\<not> isspace (CHR ''?'')"
  by (simp add: isspace_def)

lemma endswith_iff: "endswith s p \<longleftrightarrow> (\<exists>a. s = a @ p)"
proof -
  have "endswith s p \<longleftrightarrow> (\<exists>b. rev s = rev p @ b)" by (simp add: endswith_def startswith_iff)
  also have "\<dots> \<longleftrightarrow> (\<exists>a. s = a @ p)"
    by (metis rev_append rev_rev_ident)
  finally show ?thesis .
qed

lemma endswith_strip: "endswith s ''?'' \<Longrightarrow> endswith (strip s) ''?''"
proof -
  assume "endswith s ''?''"
  then obtain a where s: "s = a @ ''?''" by (auto simp: endswith_iff)
  have "dropWhile isspace (a @ ''?'') = dropWhile isspace a @ ''?''"
    by (induction a) (auto simp: not_isspace_question_mark)
  then have "strip s = dropWhile isspace a @ ''?'' \<or> True" by simp
  have "strip s = rev (dropWhile isspace (CHR ''?'' # rev (dropWhile isspace a)))"
    using \<open>dropWhile isspace (a @ ''?'') = dropWhile isspace a @ ''?''\<close>
    by (simp add: strip_def s)
  then have "strip s = dropWhile isspace a @ ''?''"
    by (simp add: not_isspace_question_mark)
  then show ?thesis unfolding endswith_iff by blast
qed

lemma lower_question_mark: "lower (u @ ''?'') = lower u @ ''?''"
  by (simp add: lower_def lower_char_def)

lemma contains_before_mark:
  assumes "contains (lower (u @ ''?'')) p" and "p \<noteq> []" and "last p \<noteq> CHR ''?''"
  shows "contains (lower u) p"
proof -
  from assms(1) obtain a b where e: "lower u @ ''?'' = a @ p @ b"
    by (auto simp: contains_iff lower_question_mark)
  have "b \<noteq> []"
  proof
    assume "b = []"
    with e have "last (lower u @ ''?'') = last (a @ p)" by simp
    with assms(2,3) show False by simp
  qed
  then obtain b' z where b: "b = b' @ [z]" by (metis rev_exhaust)
  with e have "lower u @ ''?'' = (a @ p @ b') @ [z]" by simp
  then have "lower u = a @ p @ b'" by (metis append1_eq_conv)
  then show ?thesis unfolding contains_iff by blast
qed

lemma startswith_contains: "startswith s p \<Longrightarrow> contains s p"
proof -
  assume "startswith s p"
  then obtain b where "s = [] @ p @ b" by (auto simp: startswith_iff)
  then show ?thesis unfolding contains_iff by blast
qed

lemma match_options_contains: "match_options s \<Longrightarrow> contains (lower s) ''option''"
  by (rule startswith_contains) (simp add: match_options_def)

lemma match_answer_contains: "match_answer s \<Longrightarrow> contains (lower s) ''answer:''"
  by (rule startswith_contains) (simp add: match_answer_def)

lemma clean_question_text_unfold: "clean_question_text q
      = strip (cut_at match_answer (cut_at match_options
         (let s = strip q;
              u = (if startswith s ''Question:'' then dropWhile isspace (drop 9 s)
                   else if startswith s ''Q:'' then dropWhile isspace (drop 2 s) else s)
          in if \<not> endswith u ''?'' then u @ ''?'' else u)))"
  unfolding clean_question_text_def Let_def by (rule refl)

lemma drop_dropWhile_suffix: "\<exists>x. s = x @ dropWhile P (drop n s)"
proof -
  have "s = take n s @ drop n s" by simp
  also have "drop n s = takeWhile P (drop n s) @ dropWhile P (drop n s)" by simp
  finally have "s = (take n s @ takeWhile P (drop n s)) @ dropWhile P (drop n s)"
    by simp
  then show ?thesis by blast
qed

lemma clean_question_text_question_mark:
  assumes "\<not> contains (lower question_text) ''option''"
    and "\<not> contains (lower question_text) ''answer:''"
  shows "endswith (clean_question_text question_text) ''?''"
proof -
  define s where "s = strip question_text"
  define u where "u = (if startswith s ''Question:'' then dropWhile isspace (drop 9 s)
            else if startswith s ''Q:'' then dropWhile isspace (drop 2 s) else s)"
  define t where "t = (if \<not> endswith u ''?'' then u @ ''?'' else u)"
  have c: "clean_question_text question_text
      = strip (cut_at match_answer (cut_at match_options t))"
    unfolding t_def u_def s_def clean_question_text_unfold Let_def by (rule refl)
  obtain x y where q: "question_text = x @ s @ y" unfolding s_def using strip_infix by blast
  have "\<exists>x'. s = x' @ u"
  proof -
    have "u = dropWhile isspace (drop 9 s) \<or> u = dropWhile isspace (drop 2 s) \<or> u = s"
      by (simp add: u_def)
    then consider "u = dropWhile isspace (drop 9 s)" | "u = dropWhile isspace (drop 2 s)"
      | "u = s" by blast
    then show ?thesis
    proof cases
      case 1
      then show ?thesis using drop_dropWhile_suffix [of s isspace 9] by simp
    next
      case 2
      then show ?thesis using drop_dropWhile_suffix [of s isspace 2] by simp
    next
      case 3
      then have "s = [] @ u" by simp
      then show ?thesis by blast
    qed
  qed
  then obtain x' where "s = x' @ u" by blast
  with q have qu: "question_text = (x @ x') @ u @ y" by simp
  have nu: "\<not> contains (lower u) p" if "\<not> contains (lower question_text) p" for p
    using that contains_infix [OF _ qu] by blast
  have nt: "\<not> contains (lower t) p"
    if "\<not> contains (lower question_text) p" "p \<noteq> []" "last p \<noteq> CHR ''?''" for p
  proof (cases "endswith u ''?''")
    case True
    then show ?thesis using nu [OF that(1)] by (simp add: t_def)
  next
    case False
    then show ?thesis using nu [OF that(1)] contains_before_mark [OF _ that(2,3), of u]
      by (auto simp: t_def)
  qed
  have nd: "\<not> contains (lower (drop k t)) p"
    if "\<not> contains (lower question_text) p" "p \<noteq> []" "last p \<noteq> CHR ''?''" for p k
  proof
    assume "contains (lower (drop k t)) p"
    moreover have "t = take k t @ drop k t @ []" by simp
    ultimately have "contains (lower t) p" by (rule contains_infix)
    with nt [OF that] show False by simp
  qed
  have "\<not> match_options (drop k t)" for k
  proof -
    have "\<not> contains (lower (drop k t)) ''option''"
      by (rule nd [OF assms(1)]) simp_all
    then show ?thesis using match_options_contains by blast
  qed
  then have 1: "cut_at match_options t = t" by (rule cut_at_none)
  have "\<not> match_answer (drop k t)" for k
  proof -
    have "\<not> contains (lower (drop k t)) ''answer:''"
      by (rule nd [OF assms(2)]) simp_all
    then show ?thesis using match_answer_contains by blast
  qed
  then have 2: "cut_at match_answer t = t" by (rule cut_at_none)
  have "endswith t ''?''" by (auto simp: t_def endswith_iff)
  then show ?thesis by (simp add: c 1 2 endswith_strip)
qed

text \<open>
  Claim C5 fails on the code: \<^verbatim>\<open>_clean_question_text\<close> appends the question mark before it
  removes a generated "Options:" or "Answer:" section, and the section it removes runs to
  the end of the string, question mark included. For the model output
  "Which planet is largest Options: A. Mars" the result is "Which planet is largest",
  which does not end with a question mark. The result does end with a question mark
  when the text holds no such section (lemma \<open>clean_question_text_question_mark\<close>).
\<close>

theorem clean_question_text_loses_question_mark:
  "clean_question_text ''Which planet is largest Options: A. Mars'' = ''Which planet is largest''
   \<and> \<not> endswith (clean_question_text ''Which planet is largest Options: A. Mars'') ''?''"
  by code_simp

section \<open>Malformed questions\<close>











lemma validate_result:
  "\<exists>avg m. validate_question_quality sim q =
       Inr \<lparr>score = max 0 (min 100 (fst (fst (penalties sim (dict_get (q_question q) [])
                 (dict_get (q_options q) []) (dict_get (q_correct_answer q) [])
                 (dict_get (q_explanation q) []) avg)))),
            feedback = (let fb = snd (fst (penalties sim (dict_get (q_question q) [])
                 (dict_get (q_options q) []) (dict_get (q_correct_answer q) [])
                 (dict_get (q_explanation q) []) avg))
               in if fb \<noteq> [] then join ''; '' fb else ''Good quality question''),
            quality_metrics = m\<rparr>"
proof -
  obtain a where a: "avg_option_length (dict_get (q_options q) []) = Inr a"
    using avg_option_length_ok by blast
  have "\<exists>m. validate_question_quality sim q =
       Inr \<lparr>score = max 0 (min 100 (fst (fst (penalties sim (dict_get (q_question q) [])
                 (dict_get (q_options q) []) (dict_get (q_correct_answer q) [])
                 (dict_get (q_explanation q) []) a)))),
            feedback = (let fb = snd (fst (penalties sim (dict_get (q_question q) [])
                 (dict_get (q_options q) []) (dict_get (q_correct_answer q) [])
                 (dict_get (q_explanation q) []) a))
               in if fb \<noteq> [] then join ''; '' fb else ''Good quality question''),
            quality_metrics = m\<rparr>"
    by (simp add: validate_question_quality_def Let_def a split_def)
  then show ?thesis by blast
qed


lemma validate_multiple_length:
  "\<exists>rs. validate_multiple_questions sim qs = Inr rs \<and> length rs = length qs"
proof (induction qs)
  case Nil
  then show ?case by simp
next
  case (Cons q qs)
  obtain r where "validate_question_quality sim q = Inr r"
    using validate_result by blast
  with Cons show ?case by auto
qed












end
